theory Spec2Isabelle
  imports Complex_Main "HOL-Library.AList"
begin

section \<open>Python values, dictionaries and exceptions\<close>

text \<open>
  The stages of the travel planner exchange JSON-shaped Python values: the request
  dictionary \<open>user_info\<close>, the dictionaries returned by the two search tools, and the
  dumps of the typed records. A dictionary is an association list in insertion order;
  looking a key up is \<open>map_of\<close>, storing a key is \<open>AList.update\<close>, which replaces the
  entry of a key that is present and appends a new key at the end.
  A \<open>str\<close> is a list of 8-bit characters, so the string functions below are those of
  Python on ASCII text. A \<open>float\<close> is the real number it denotes.
\<close>

datatype pyval =
    PNone
  | PBool bool
  | PInt int
  | PFloat real
  | PStr string
  | PList "pyval list"
  | PDict "(string \<times> pyval) list"

type_synonym pydict = "(string \<times> pyval) list"

text \<open>Truth value testing: \<open>None\<close>, \<open>False\<close>, zero, and empty containers are false.\<close>

fun truthy :: "pyval \<Rightarrow> bool" where
  "truthy PNone = False"
| "truthy (PBool b) = b"
| "truthy (PInt i) = (i \<noteq> 0)"
| "truthy (PFloat r) = (r \<noteq> 0)"
| "truthy (PStr s) = (s \<noteq> [])"
| "truthy (PList xs) = (xs \<noteq> [])"
| "truthy (PDict kvs) = (kvs \<noteq> [])"

text \<open>\<open>d.get(k)\<close> and \<open>d.get(k, default)\<close> on a dictionary.\<close>

definition dict_get :: "pydict \<Rightarrow> string \<Rightarrow> pyval" where
  "dict_get d k = (case map_of d k of None \<Rightarrow> PNone | Some v \<Rightarrow> v)"

definition dict_get_or :: "pydict \<Rightarrow> string \<Rightarrow> pyval \<Rightarrow> pyval" where
  "dict_get_or d k dflt = (case map_of d k of None \<Rightarrow> dflt | Some v \<Rightarrow> v)"

text \<open>\<open>d.update(other)\<close>: the entries of \<open>other\<close> are stored one after the other.\<close>

definition dict_update :: "pydict \<Rightarrow> pydict \<Rightarrow> pydict" where
  "dict_update d other = fold (\<lambda>(k, v) acc. AList.update k v acc) other d"


text \<open>
  Exceptions carry the text that \<open>str(e)\<close> gives. A pydantic \<open>ValidationError\<close> carries
  in addition the text of \<open>e.errors()\<close>; \<open>OtherException\<close> stands for every exception
  class the program does not name (network failures, API errors).
\<close>

datatype exn =
    ValidationError string string
  | ValueError string
  | KeyError string
  | TypeError string
  | AttributeError string
  | OtherException string

fun exn_str :: "exn \<Rightarrow> string" where
  "exn_str (ValidationError m errs) = m"
| "exn_str (ValueError m) = m"
| "exn_str (KeyError m) = m"
| "exn_str (TypeError m) = m"
| "exn_str (AttributeError m) = m"
| "exn_str (OtherException m) = m"

fun is_ValidationError :: "exn \<Rightarrow> bool" where
  "is_ValidationError (ValidationError m errs) = True"
| "is_ValidationError _ = False"

text \<open>Sequencing of steps that may raise: the first exception ends the computation.\<close>

definition then_do :: "exn + 'a \<Rightarrow> ('a \<Rightarrow> exn + 'b) \<Rightarrow> exn + 'b" where
  "then_do r f = (case r of Inl e \<Rightarrow> Inl e | Inr v \<Rightarrow> f v)"

fun type_name :: "pyval \<Rightarrow> string" where
  "type_name PNone = ''NoneType''"
| "type_name (PBool b) = ''bool''"
| "type_name (PInt i) = ''int''"
| "type_name (PFloat r) = ''float''"
| "type_name (PStr s) = ''str''"
| "type_name (PList xs) = ''list''"
| "type_name (PDict kvs) = ''dict''"

definition quoted :: "string \<Rightarrow> string" where
  "quoted s = [CHR 0x27] @ s @ [CHR 0x27]"

definition no_attribute :: "pyval \<Rightarrow> string \<Rightarrow> exn" where
  "no_attribute v a =
     AttributeError (quoted (type_name v) @ '' object has no attribute '' @ quoted a)"

text \<open>\<open>v.get(k, default)\<close> on an arbitrary value: only a dictionary has \<open>get\<close>.\<close>

fun py_get :: "pyval \<Rightarrow> string \<Rightarrow> pyval \<Rightarrow> exn + pyval" where
  "py_get (PDict kvs) k dflt = Inr (dict_get_or kvs k dflt)"
| "py_get v k dflt = Inl (no_attribute v ''get'')"

text \<open>
  The elements a \<open>for\<close> loop visits: those of a list, the characters of a string, the
  keys of a dictionary; the other values are not iterable.
\<close>

fun py_iter :: "pyval \<Rightarrow> exn + pyval list" where
  "py_iter (PList xs) = Inr xs"
| "py_iter (PStr s) = Inr (map (\<lambda>c. PStr [c]) s)"
| "py_iter (PDict kvs) = Inr (map (\<lambda>kv. PStr (fst kv)) kvs)"
| "py_iter v = Inl (TypeError (quoted (type_name v) @ '' object is not iterable''))"

text \<open>\<open>sep.join(xs)\<close>.\<close>

fun join :: "string \<Rightarrow> string list \<Rightarrow> string" where
  "join sep [] = []"
| "join sep [x] = x"
| "join sep (x # y # ys) = x @ sep @ join sep (y # ys)"

text \<open>\<open>s.lower()\<close>, \<open>s.strip()\<close>, \<open>s.replace(' ', '_')\<close>, \<open>s.split(c)\<close> and
  \<open>s.split(c, 1)\<close> on ASCII text.\<close>

definition lower_char :: "char \<Rightarrow> char" where
  "lower_char c =
     (case map_of (zip ''ABCDEFGHIJKLMNOPQRSTUVWXYZ'' ''abcdefghijklmnopqrstuvwxyz'') c of
        None \<Rightarrow> c | Some l \<Rightarrow> l)"

definition py_lower :: "string \<Rightarrow> string" where
  "py_lower s = map lower_char s"

definition is_space :: "char \<Rightarrow> bool" where
  "is_space c = (c \<in> set [CHR '' '', CHR 0x09, CHR 0x0A, CHR 0x0B, CHR 0x0C, CHR 0x0D,
                            CHR 0x1C, CHR 0x1D, CHR 0x1E, CHR 0x1F])"

definition py_strip :: "string \<Rightarrow> string" where
  "py_strip s = rev (dropWhile is_space (rev (dropWhile is_space s)))"

definition replace_char :: "char \<Rightarrow> char \<Rightarrow> string \<Rightarrow> string" where
  "replace_char a b s = map (\<lambda>c. if c = a then b else c) s"

fun split_on :: "char \<Rightarrow> string \<Rightarrow> string list" where
  "split_on sep [] = [[]]"
| "split_on sep (c # cs) =
     (if c = sep then [] # split_on sep cs
      else (case split_on sep cs of
              [] \<Rightarrow> [[c]]
            | w # ws \<Rightarrow> (c # w) # ws))"

definition split_once :: "char \<Rightarrow> string \<Rightarrow> string \<times> string" where
  "split_once sep s = (takeWhile (\<lambda>c. c \<noteq> sep) s, drop 1 (dropWhile (\<lambda>c. c \<noteq> sep) s))"

text \<open>A loop whose body may raise: the elements are handled in order, and the first
  exception leaves the loop.\<close>

fun map_exn :: "('a \<Rightarrow> exn + 'b) \<Rightarrow> 'a list \<Rightarrow> exn + 'b list" where
  "map_exn f [] = Inr []"
| "map_exn f (x # xs) =
     (case f x of
        Inl e \<Rightarrow> Inl e
      | Inr y \<Rightarrow> (case map_exn f xs of Inl e \<Rightarrow> Inl e | Inr ys \<Rightarrow> Inr (y # ys)))"

section \<open>Calendar dates: \<open>datetime.strptime(s, '%Y-%m-%d')\<close> and date difference\<close>

text \<open>
  \<open>strptime\<close> matches the text against the regular expression of the format,
  \<^verbatim>\<open>(\d\d\d\d)-(1[0-2]|0[1-9]|[1-9])-(3[0-1]|[1-2]\d|0[1-9]|[1-9]| [1-9])\<close>,
  trying the alternatives of a group from left to right and backtracking when the
  rest of the pattern does not match; text left over after the match, and a day that
  the month does not have, raise \<open>ValueError\<close>.
\<close>

definition digit_val :: "char \<Rightarrow> nat option" where
  "digit_val c = map_of
     [(CHR ''0'', 0), (CHR ''1'', 1), (CHR ''2'', 2), (CHR ''3'', 3), (CHR ''4'', 4),
      (CHR ''5'', 5), (CHR ''6'', 6), (CHR ''7'', 7), (CHR ''8'', 8), (CHR ''9'', 9)] c"

text \<open>Each matcher returns, in the order the regular expression tries them, the
  values it can read at the head of the text together with the text that remains.\<close>

fun match_Y :: "string \<Rightarrow> (nat \<times> string) list" where
  "match_Y (a # b # c # d # rest) =
     (case (digit_val a, digit_val b, digit_val c, digit_val d) of
        (Some x, Some y, Some z, Some w) \<Rightarrow> [(1000 * x + 100 * y + 10 * z + w, rest)]
      | _ \<Rightarrow> [])"
| "match_Y _ = []"

definition match_pair :: "nat \<Rightarrow> nat \<Rightarrow> nat \<Rightarrow> nat \<Rightarrow> string \<Rightarrow> (nat \<times> string) list" where
  "match_pair lo1 hi1 lo2 hi2 s =
     (case s of
        a # b # rest \<Rightarrow>
          (case (digit_val a, digit_val b) of
             (Some x, Some y) \<Rightarrow>
               (if lo1 \<le> x \<and> x \<le> hi1 \<and> lo2 \<le> y \<and> y \<le> hi2 then [(10 * x + y, rest)] else [])
           | _ \<Rightarrow> [])
      | _ \<Rightarrow> [])"

definition match_single :: "string \<Rightarrow> (nat \<times> string) list" where
  "match_single s =
     (case s of
        a # rest \<Rightarrow>
          (case digit_val a of
             Some x \<Rightarrow> (if 1 \<le> x then [(x, rest)] else [])
           | None \<Rightarrow> [])
      | _ \<Rightarrow> [])"

definition match_m :: "string \<Rightarrow> (nat \<times> string) list" where
  "match_m s = match_pair 1 1 0 2 s @ match_pair 0 0 1 9 s @ match_single s"

definition match_d :: "string \<Rightarrow> (nat \<times> string) list" where
  "match_d s = match_pair 3 3 0 1 s @ match_pair 1 2 0 9 s @ match_pair 0 0 1 9 s
               @ match_single s
               @ (case s of c # rest \<Rightarrow> (if c = CHR '' '' then match_single rest else []) | _ \<Rightarrow> [])"

definition match_dash :: "string \<Rightarrow> string list" where
  "match_dash s = (case s of c # rest \<Rightarrow> (if c = CHR ''-'' then [rest] else []) | _ \<Rightarrow> [])"

definition match_format :: "string \<Rightarrow> ((nat \<times> nat \<times> nat) \<times> string) list" where
  "match_format s =
     concat (map (\<lambda>(y, r1).
       concat (map (\<lambda>r2.
         concat (map (\<lambda>(m, r3).
           concat (map (\<lambda>r4.
             map (\<lambda>(d, r5). ((y, m, d), r5)) (match_d r4))
           (match_dash r3)))
         (match_m r2)))
       (match_dash r1)))
     (match_Y s))"

definition is_leap :: "nat \<Rightarrow> bool" where
  "is_leap y = (y mod 4 = 0 \<and> (y mod 100 \<noteq> 0 \<or> y mod 400 = 0))"

definition days_in_month :: "nat \<Rightarrow> nat \<Rightarrow> nat" where
  "days_in_month y m =
     (if m = 2 then (if is_leap y then 29 else 28)
      else if m = 4 \<or> m = 6 \<or> m = 9 \<or> m = 11 then 30 else 31)"

record date =
  year :: nat
  month :: nat
  day :: nat

text \<open>The constructor of a date checks the ranges of its three fields.\<close>

definition make_date :: "nat \<Rightarrow> nat \<Rightarrow> nat \<Rightarrow> exn + date" where
  "make_date y m d =
     (if \<not> (1 \<le> y \<and> y \<le> 9999) then Inl (ValueError ''year is out of range'')
      else if \<not> (1 \<le> m \<and> m \<le> 12) then Inl (ValueError ''month must be in 1..12'')
      else if \<not> (1 \<le> d \<and> d \<le> days_in_month y m)
        then Inl (ValueError ''day is out of range for month'')
      else Inr \<lparr>year = y, month = m, day = d\<rparr>)"

definition strptime_ymd :: "string \<Rightarrow> exn + date" where
  "strptime_ymd s =
     (case match_format s of
        [] \<Rightarrow> Inl (ValueError ''time data does not match format'')
      | ((y, m, d), rest) # _ \<Rightarrow>
          (if rest \<noteq> [] then Inl (ValueError ''unconverted data remains'')
           else make_date y m d))"

text \<open>The proleptic Gregorian ordinal of a date; day 1 is 0001-01-01.\<close>

definition days_before_year :: "nat \<Rightarrow> int" where
  "days_before_year y =
     (let p = int y - 1 in p * 365 + p div 4 - p div 100 + p div 400)"

definition days_before_month :: "nat \<Rightarrow> nat \<Rightarrow> int" where
  "days_before_month y m =
     (\<Sum>k \<leftarrow> [1..<m]. int (days_in_month y k))"

definition toordinal :: "date \<Rightarrow> int" where
  "toordinal dt = days_before_year (year dt) + days_before_month (year dt) (month dt) + int (day dt)"

text \<open>\<open>(end_date - start_date).days\<close> for two dates at midnight.\<close>

definition timedelta_days :: "date \<Rightarrow> date \<Rightarrow> int" where
  "timedelta_days end_date start_date = toordinal end_date - toordinal start_date"


section \<open>The search tools (\<open>tools.py\<close>)\<close>

text \<open>
  \<open>GoogleSearch(params).get_dict()\<close> is the external search: a function from the
  request parameters to the decoded JSON response, or an exception. Python's \<open>str\<close>
  builtin is the parameter \<open>str_of\<close>: the text of a float or of a container is not
  fixed by this model.
\<close>

definition flight_params :: "string \<Rightarrow> string \<Rightarrow> string \<Rightarrow> string \<Rightarrow> string \<Rightarrow> pydict" where
  "flight_params api_key source destination departure_date return_date =
     [(''engine'', PStr ''google_flights''),
      (''departure_id'', PStr source),
      (''arrival_id'', PStr destination),
      (''outbound_date'', PStr departure_date),
      (''return_date'', PStr return_date),
      (''stops'', PStr ''2''),
      (''currency'', PStr ''USD''),
      (''hl'', PStr ''en''),
      (''api_key'', PStr api_key)]"

definition flights_response :: "string \<Rightarrow> string \<Rightarrow> pyval list \<Rightarrow> string option \<Rightarrow> pydict" where
  "flights_response source destination fl note =
     [(''source'', PStr source), (''destination'', PStr destination), (''flights'', PList fl)]
     @ (case note of None \<Rightarrow> [] | Some n \<Rightarrow> [(''note'', PStr n)])"

text \<open>One entry of \<open>simplified_flights\<close>: the fields of the leg, and the price of the
  whole option \<open>best_flights[0]\<close>.\<close>

definition simplify_leg :: "(pyval \<Rightarrow> string) \<Rightarrow> pyval \<Rightarrow> pyval \<Rightarrow> exn + pyval" where
  "simplify_leg str_of best0 leg =
     then_do (py_get leg ''airline'' (PStr ''Unknown'')) (\<lambda>airline.
     then_do (py_get leg ''departure_airport'' (PDict [])) (\<lambda>dep1.
     then_do (py_get dep1 ''time'' (PStr ''N/A'')) (\<lambda>departure_time.
     then_do (py_get leg ''arrival_airport'' (PDict [])) (\<lambda>arr1.
     then_do (py_get arr1 ''time'' (PStr ''N/A'')) (\<lambda>arrival_time.
     then_do (py_get leg ''departure_airport'' (PDict [])) (\<lambda>dep2.
     then_do (py_get dep2 ''name'' (PStr ''Unknown'')) (\<lambda>departure_airport.
     then_do (py_get leg ''arrival_airport'' (PDict [])) (\<lambda>arr2.
     then_do (py_get arr2 ''name'' (PStr ''Unknown'')) (\<lambda>arrival_airport.
     then_do (py_get best0 ''price'' (PStr ''N/A'')) (\<lambda>price.
       Inr (PDict [(''airline'', airline),
                   (''departure_time'', departure_time),
                   (''arrival_time'', arrival_time),
                   (''departure_airport'', departure_airport),
                   (''arrival_airport'', arrival_airport),
                   (''price'', PStr (str_of price))])))))))))))"

definition fetch_flights ::
  "(pyval \<Rightarrow> string) \<Rightarrow> (pydict \<Rightarrow> exn + pydict) \<Rightarrow> string
   \<Rightarrow> string \<Rightarrow> string \<Rightarrow> string \<Rightarrow> string \<Rightarrow> exn + pydict" where
  "fetch_flights str_of GoogleSearch api_key source destination departure_date return_date =
     (case GoogleSearch (flight_params api_key source destination departure_date return_date) of
        Inl e \<Rightarrow>
          Inr (flights_response source destination []
                 (Some (''Error fetching flights: '' @ exn_str e)))
      | Inr results \<Rightarrow>
          (let best_flights = dict_get_or results ''best_flights'' (PList []) in
           if \<not> truthy best_flights
           then Inr (flights_response source destination [] (Some ''No flight options found.''))
           else
             (case best_flights of
                PList (best0 # later) \<Rightarrow>
                  then_do (py_get best0 ''flights'' PNone) (\<lambda>has_legs.
                    if truthy has_legs
                    then
                      then_do (py_get best0 ''flights'' (PList [])) (\<lambda>legs.
                      then_do (py_iter legs) (\<lambda>leg_list.
                      then_do (map_exn (simplify_leg str_of best0) leg_list) (\<lambda>simplified_flights.
                        Inr (flights_response source destination simplified_flights None))))
                    else
                      Inr (flights_response source destination []
                             (Some ''No detailed flight legs found within the best flight option.'')))
              | _ \<Rightarrow>
                  Inr (flights_response source destination []
                         (Some ''No detailed flight legs found within the best flight option.'')))))"

definition price_ranges :: "(string \<times> (int \<times> int)) list" where
  "price_ranges = [(''economy'', (50, 175)), (''standard'', (176, 300)), (''luxury'', (301, 10000))]"

definition hotel_params ::
  "string \<Rightarrow> string \<Rightarrow> string \<Rightarrow> string \<Rightarrow> int \<Rightarrow> string option \<Rightarrow> pydict" where
  "hotel_params api_key place check_in_date check_out_date number_of_adults budget =
     (let params = [(''engine'', PStr ''google_hotels''),
                    (''q'', PStr place),
                    (''check_in_date'', PStr check_in_date),
                    (''check_out_date'', PStr check_out_date),
                    (''adults'', PInt number_of_adults),
                    (''currency'', PStr ''USD''),
                    (''hl'', PStr ''en''),
                    (''api_key'', PStr api_key)]
      in case budget of
           None \<Rightarrow> params
         | Some b \<Rightarrow>
             (if b = [] then params
              else (case map_of price_ranges (py_lower b) of
                      None \<Rightarrow> params
                    | Some (lo, hi) \<Rightarrow>
                        AList.update ''max_price'' (PInt hi)
                          (AList.update ''min_price'' (PInt lo) params))))"

text \<open>One entry of \<open>simplified_hotels\<close>.\<close>

definition hotel_info_of :: "pyval \<Rightarrow> exn + pyval" where
  "hotel_info_of result =
     then_do (py_get result ''name'' PNone) (\<lambda>hotel_name.
     then_do (py_get result ''rate_per_night'' (PDict [])) (\<lambda>rate.
     then_do (py_get rate ''lowest'' PNone) (\<lambda>lowest.
     then_do (if truthy lowest then Inr lowest else py_get result ''price'' PNone) (\<lambda>price_per_night.
     then_do (py_get result ''overall_rating'' PNone) (\<lambda>overall.
     then_do (if truthy overall then Inr overall else py_get result ''rating'' PNone) (\<lambda>rating.
     then_do (py_get result ''amenities'' (PList [])) (\<lambda>amenities.
       Inr (PDict [(''hotel_name'', hotel_name),
                   (''price_per_night'', price_per_night),
                   (''rating'', rating),
                   (''amenities'', amenities)]))))))))"

text \<open>The loop \<open>for i, result in enumerate(hotels_data_source)\<close> with its
  \<open>if i >= 2: break\<close>; \<open>acc\<close> is \<open>simplified_hotels\<close>.\<close>

fun hotel_loop :: "nat \<Rightarrow> pyval list \<Rightarrow> pyval list \<Rightarrow> exn + pyval list" where
  "hotel_loop i [] acc = Inr acc"
| "hotel_loop i (result # rest) acc =
     (if i \<ge> 2 then Inr acc
      else (case hotel_info_of result of
              Inl e \<Rightarrow> Inl e
            | Inr hotel_info \<Rightarrow> hotel_loop (Suc i) rest (acc @ [hotel_info])))"

definition hotels_response :: "string \<Rightarrow> pyval list \<Rightarrow> string option \<Rightarrow> pydict" where
  "hotels_response place hs note =
     [(''place'', PStr place), (''hotels'', PList hs)]
     @ (case note of None \<Rightarrow> [] | Some n \<Rightarrow> [(''note'', PStr n)])"

definition hotel_search ::
  "(pydict \<Rightarrow> exn + pydict) \<Rightarrow> string
   \<Rightarrow> string \<Rightarrow> string \<Rightarrow> string \<Rightarrow> int \<Rightarrow> string option \<Rightarrow> exn + pydict" where
  "hotel_search GoogleSearch api_key place check_in_date check_out_date number_of_adults budget =
     (case GoogleSearch
             (hotel_params api_key place check_in_date check_out_date number_of_adults budget) of
        Inl e \<Rightarrow> Inr (hotels_response place [] (Some (''Error fetching hotels: '' @ exn_str e)))
      | Inr results \<Rightarrow>
          (let properties = dict_get_or results ''properties'' (PList []);
               hotels_data_source =
                 (if \<not> truthy properties then dict_get_or results ''ads'' (PList [])
                  else properties)
           in then_do (py_iter hotels_data_source) (\<lambda>elems.
              then_do (hotel_loop 0 elems []) (\<lambda>simplified_hotels.
                if simplified_hotels = []
                then Inr (hotels_response place [] (Some ''No hotel options found.''))
                else Inr (hotels_response place simplified_hotels None)))))"

section \<open>The shared pipeline state\<close>

text \<open>
  Modelled from the spec: the typed records of \<open>models.py\<close>, which is not among the
  sources. \<open>DestinationInformation\<close> holds the three lists the spec names
  (activities, local travel options, destination research); the field names are those
  the prompts of \<open>agents.py\<close> use.
\<close>

record ItineraryActivityDetail =
  activity_name :: string
  activity_description :: string
  ticket_price :: string
  best_time_to_visit :: string

record TravelOption =
  travel_method :: string
  travel_description :: string

record ResearchDetail =
  research_title :: string
  research_notes :: string

record DestinationInformation =
  activities :: "ItineraryActivityDetail list"
  local_travel_options :: "TravelOption list"
  destination_research :: "ResearchDetail list"

definition model_dump_activity :: "ItineraryActivityDetail \<Rightarrow> pyval" where
  "model_dump_activity a =
     PDict [(''activity_name'', PStr (activity_name a)),
            (''description'', PStr (activity_description a)),
            (''ticket_price'', PStr (ticket_price a)),
            (''best_time_to_visit'', PStr (best_time_to_visit a))]"

definition model_dump_option :: "TravelOption \<Rightarrow> pyval" where
  "model_dump_option t =
     PDict [(''method'', PStr (travel_method t)), (''description'', PStr (travel_description t))]"

definition model_dump_research :: "ResearchDetail \<Rightarrow> pyval" where
  "model_dump_research r =
     PDict [(''title'', PStr (research_title r)), (''notes'', PStr (research_notes r))]"

text \<open>
  \<open>TravelPlannerState\<close> is the dictionary handed to every stage. A key the stage reads
  with \<open>state.get(key, default)\<close> may be absent: the field is then \<open>None\<close>. A key that
  is present with the Python value \<open>None\<close> is \<open>Some PNone\<close>. The key \<open>notes\<close> is the
  field \<open>notes_key\<close>; the notes are a Python list, whose elements are the messages
  (\<open>PStr\<close>) and whatever value a tool returned as its note.
\<close>

record TravelPlannerState =
  user_info :: pydict
  flight_results :: "pyval option"
  hotel_results :: "pyval option"
  destination_info_results :: "DestinationInformation option"
  notes_key :: "pyval list option"

text \<open>\<open>state.get("notes", [])\<close>.\<close>

definition state_notes :: "TravelPlannerState \<Rightarrow> pyval list" where
  "state_notes state = (case notes_key state of None \<Rightarrow> [] | Some ns \<Rightarrow> ns)"

section \<open>Info Extraction stage\<close>

text \<open>
  Modelled from the spec: \<open>ExtractedTripInfo\<close> of \<open>models.py\<close>. The stage reads the two
  dates and the day count; every other field of the record only reaches
  \<open>model_dump()\<close> and is kept as a dictionary.
\<close>

record ExtractedTripInfo =
  departure_date :: string
  return_date :: string
  num_days :: pyval
  other_fields :: pydict

definition model_dump_info :: "ExtractedTripInfo \<Rightarrow> pydict" where
  "model_dump_info e =
     other_fields e
     @ [(''departure_date'', PStr (departure_date e)),
        (''return_date'', PStr (return_date e)),
        (''num_days'', num_days e)]"

text \<open>The inner \<open>try\<close> block: both dates are parsed, then the day count is computed.\<close>

definition calculated_num_days :: "ExtractedTripInfo \<Rightarrow> exn + int" where
  "calculated_num_days e =
     (case strptime_ymd (departure_date e) of
        Inl err \<Rightarrow> Inl err
      | Inr start_date \<Rightarrow>
          (case strptime_ymd (return_date e) of
             Inl err \<Rightarrow> Inl err
           | Inr end_date \<Rightarrow> Inr (timedelta_days end_date start_date + 1)))"

record info_update =
  info_user_info :: pydict
  info_notes :: "pyval list"

definition info_validation_msg :: "exn \<Rightarrow> string" where
  "info_validation_msg e =
     ''Failed to extract structured information due to Pydantic validation: '' @ exn_str e
     @ ''. Errors: '' @ (case e of ValidationError m errs \<Rightarrow> errs | _ \<Rightarrow> [])"

definition info_unexpected_msg :: "exn \<Rightarrow> string" where
  "info_unexpected_msg e =
     ''An unexpected error occurred during Info Extractor Agent processing: '' @ exn_str e"

text \<open>The two outer handlers: both return the \<open>user_info\<close> the stage was given.\<close>

definition info_handler :: "pydict \<Rightarrow> pyval list \<Rightarrow> exn \<Rightarrow> info_update" where
  "info_handler ui current_notes e =
     (if is_ValidationError e
      then \<lparr>info_user_info = ui, info_notes = current_notes @ [PStr (info_validation_msg e)]\<rparr>
      else \<lparr>info_user_info = ui, info_notes = current_notes @ [PStr (info_unexpected_msg e)]\<rparr>)"

definition could_not_calculate_note :: string where
  "could_not_calculate_note =
     ''Could not calculate number of days from provided dates. Using LLM'' @ [CHR 0x27]
     @ ''s or default.''"

definition extracted_note :: string where
  "extracted_note = ''User information successfully extracted and standardized.''"

text \<open>
  \<open>extractor_chain\<close> is the structured-output call on the request; it returns the
  typed record or raises. \<open>json.dumps\<close> of the JSON-shaped request does not raise.
  The inner handler catches \<open>ValueError\<close> and \<open>KeyError\<close>; any other exception of
  the inner block reaches the outer handlers.
\<close>

definition info_extractor_agent_node ::
  "(pydict \<Rightarrow> exn + ExtractedTripInfo) \<Rightarrow> TravelPlannerState \<Rightarrow> info_update" where
  "info_extractor_agent_node extractor_chain state =
     (let ui = user_info state; current_notes = state_notes state in
      case extractor_chain ui of
        Inl e \<Rightarrow> info_handler ui current_notes e
      | Inr extracted_data \<Rightarrow>
          (case calculated_num_days extracted_data of
             Inr n \<Rightarrow>
               \<lparr>info_user_info =
                  dict_update ui (model_dump_info (extracted_data\<lparr>num_days := PInt n\<rparr>)),
                info_notes = current_notes @ [PStr extracted_note]\<rparr>
           | Inl (ValueError m) \<Rightarrow>
               \<lparr>info_user_info = dict_update ui (model_dump_info extracted_data),
                info_notes = current_notes
                  @ [PStr could_not_calculate_note, PStr extracted_note]\<rparr>
           | Inl (KeyError m) \<Rightarrow>
               \<lparr>info_user_info = dict_update ui (model_dump_info extracted_data),
                info_notes = current_notes
                  @ [PStr could_not_calculate_note, PStr extracted_note]\<rparr>
           | Inl err \<Rightarrow> info_handler ui current_notes err))"

section \<open>Flight stage\<close>

text \<open>
  Modelled from the spec: the record \<open>Flight\<close> of \<open>models.py\<close>. All six fields are
  strings; the constructor raises \<open>ValidationError\<close> when a value is not a string. The
  text of the error names the fields at fault; pydantic's own wording is not part of
  the sources.
\<close>

record Flight =
  airline :: string
  departure_time :: string
  arrival_time :: string
  departure_airport :: string
  arrival_airport :: string
  price :: string

fun is_str :: "pyval \<Rightarrow> bool" where
  "is_str (PStr s) = True"
| "is_str _ = False"

fun the_str :: "pyval \<Rightarrow> string" where
  "the_str (PStr s) = s"
| "the_str _ = []"

definition validation_error :: "string \<Rightarrow> string list \<Rightarrow> exn" where
  "validation_error cls bad =
     ValidationError (''validation error for '' @ cls @ '': '' @ join '', '' bad)
                     (''['' @ join '', '' bad @ '']'')"

definition Flight_new ::
  "pyval \<Rightarrow> pyval \<Rightarrow> pyval \<Rightarrow> pyval \<Rightarrow> pyval \<Rightarrow> pyval \<Rightarrow> exn + Flight" where
  "Flight_new a dt arr da aa p =
     (let bad = map fst (filter (\<lambda>kv. \<not> is_str (snd kv))
                  [(''airline'', a), (''departure_time'', dt), (''arrival_time'', arr),
                   (''departure_airport'', da), (''arrival_airport'', aa), (''price'', p)])
      in if bad = []
         then Inr \<lparr>airline = the_str a, departure_time = the_str dt, arrival_time = the_str arr,
                   departure_airport = the_str da, arrival_airport = the_str aa,
                   price = the_str p\<rparr>
         else Inl (validation_error ''Flight'' bad))"

definition model_dump_flight :: "Flight \<Rightarrow> pyval" where
  "model_dump_flight f =
     PDict [(''airline'', PStr (airline f)),
            (''departure_time'', PStr (departure_time f)),
            (''arrival_time'', PStr (arrival_time f)),
            (''departure_airport'', PStr (departure_airport f)),
            (''arrival_airport'', PStr (arrival_airport f)),
            (''price'', PStr (price f))]"

text \<open>The list comprehension \<open>[f for f in fields if not user_info.get(f)]\<close>.\<close>

definition missing_fields :: "pydict \<Rightarrow> string list \<Rightarrow> string list" where
  "missing_fields ui names = filter (\<lambda>f. \<not> truthy (dict_get ui f)) names"

definition flight_fields :: "string list" where
  "flight_fields = [''source_iata'', ''destination_iata'', ''departure_date'', ''return_date'']"

text \<open>The body of the loop over \<open>tool_output["flights"]\<close>: an entry that fails the
  typed construction is left out (the stage only logs it); any other exception leaves
  the loop.\<close>

definition flight_entry :: "(pyval \<Rightarrow> string) \<Rightarrow> pyval \<Rightarrow> exn + Flight option" where
  "flight_entry str_of flight_data =
     then_do (py_get flight_data ''airline'' (PStr ''Unknown Airline'')) (\<lambda>a.
     then_do (py_get flight_data ''departure_time'' (PStr ''N/A'')) (\<lambda>dt.
     then_do (py_get flight_data ''arrival_time'' (PStr ''N/A'')) (\<lambda>arr.
     then_do (py_get flight_data ''departure_airport'' (PStr ''Unknown Departure Airport'')) (\<lambda>da.
     then_do (py_get flight_data ''arrival_airport'' (PStr ''Unknown Arrival Airport'')) (\<lambda>aa.
     then_do (py_get flight_data ''price'' (PStr ''N/A'')) (\<lambda>p.
       (case Flight_new a dt arr da aa (PStr (str_of p)) of
          Inr f \<Rightarrow> Inr (Some f)
        | Inl e \<Rightarrow> (if is_ValidationError e then Inr None else Inl e))))))))"

record flight_update =
  fu_flight_results :: pydict
  fu_notes :: "pyval list"

text \<open>
  The \<open>try\<close> block of the stage. \<open>tool\<close> is \<open>all_tools[0].invoke\<close>, the flight search
  tool called on its argument dictionary.
\<close>

definition flight_try ::
  "(pyval \<Rightarrow> string) \<Rightarrow> (pydict \<Rightarrow> exn + pydict) \<Rightarrow> pydict \<Rightarrow> pyval list
   \<Rightarrow> exn + flight_update" where
  "flight_try str_of tool ui current_notes =
     (let source_iata = dict_get ui ''source_iata'';
          destination_iata = dict_get ui ''destination_iata'';
          dep_date = dict_get ui ''departure_date'';
          ret_date = dict_get ui ''return_date''
      in if \<not> list_all truthy [source_iata, destination_iata, dep_date, ret_date]
         then Inl (ValueError (''Missing required flight parameters from user_info: ''
                               @ join '', '' (missing_fields ui flight_fields)))
         else
           then_do (tool [(''source'', source_iata), (''destination'', destination_iata),
                          (''departure_date'', dep_date), (''return_date'', ret_date)])
           (\<lambda>tool_output.
           then_do (if truthy (PDict tool_output) \<and> truthy (dict_get tool_output ''flights'')
                    then then_do (py_iter (dict_get tool_output ''flights'')) (\<lambda>elems.
                         then_do (map_exn (flight_entry str_of) elems) (\<lambda>entries.
                           Inr (List.map_filter id entries)))
                    else Inr [])
           (\<lambda>flights.
             Inr \<lparr>fu_flight_results =
                    [(''flights'', PList (map model_dump_flight flights)),
                     (''note'', dict_get_or tool_output ''note'' (PStr ''Flight search completed.''))],
                  fu_notes =
                    (if truthy (dict_get tool_output ''note'')
                     then current_notes @ [dict_get tool_output ''note'']
                     else current_notes)\<rparr>)))"

definition flight_agent_node ::
  "(pyval \<Rightarrow> string) \<Rightarrow> (pydict \<Rightarrow> exn + pydict) \<Rightarrow> TravelPlannerState \<Rightarrow> flight_update" where
  "flight_agent_node str_of tool state =
     (let ui = user_info state; current_notes = state_notes state in
      case flight_try str_of tool ui current_notes of
        Inr upd \<Rightarrow> upd
      | Inl e \<Rightarrow>
          (let error_msg = ''Error during Flight Agent processing: '' @ exn_str e in
           \<lparr>fu_flight_results = [(''flights'', PList []), (''note'', PStr error_msg)],
            fu_notes = current_notes @ [PStr error_msg]\<rparr>))"

section \<open>Hotel stage\<close>

definition hotel_fields :: "string list" where
  "hotel_fields = [''hotel_city'', ''departure_date'', ''return_date'', ''no_of_adults'']"

record hotel_update =
  hu_hotel_results :: pydict
  hu_notes :: "pyval list"

text \<open>The \<open>try\<close> block; \<open>tool\<close> is \<open>all_tools[1].invoke\<close>. The adult count is read
  with the default 1.\<close>

definition hotel_try ::
  "(pydict \<Rightarrow> exn + pydict) \<Rightarrow> pydict \<Rightarrow> pyval list \<Rightarrow> exn + hotel_update" where
  "hotel_try tool ui current_notes =
     (let hotel_city = dict_get ui ''hotel_city'';
          check_in_date = dict_get ui ''departure_date'';
          check_out_date = dict_get ui ''return_date'';
          number_of_adults = dict_get_or ui ''no_of_adults'' (PInt 1);
          budget = dict_get ui ''budget''
      in if \<not> list_all truthy [hotel_city, check_in_date, check_out_date, number_of_adults]
         then Inl (ValueError (''Missing required hotel parameters from user_info: ''
                               @ join '', '' (missing_fields ui hotel_fields)))
         else
           then_do (tool [(''place'', hotel_city), (''check_in_date'', check_in_date),
                          (''check_out_date'', check_out_date),
                          (''number_of_adults'', number_of_adults), (''budget'', budget)])
           (\<lambda>tool_output.
             Inr \<lparr>hu_hotel_results = tool_output,
                  hu_notes =
                    (if truthy (dict_get tool_output ''note'')
                     then current_notes @ [dict_get tool_output ''note'']
                     else current_notes)\<rparr>))"

definition hotel_agent_node ::
  "(pydict \<Rightarrow> exn + pydict) \<Rightarrow> TravelPlannerState \<Rightarrow> hotel_update" where
  "hotel_agent_node tool state =
     (let ui = user_info state; current_notes = state_notes state in
      case hotel_try tool ui current_notes of
        Inr upd \<Rightarrow> upd
      | Inl e \<Rightarrow>
          (let error_msg = ''Hotel search failed: '' @ exn_str e in
           \<lparr>hu_hotel_results = [(''hotels'', PList []), (''note'', PStr error_msg)],
            hu_notes = current_notes @ [PStr error_msg]\<rparr>))"

section \<open>Destination stage\<close>

definition state_flight_results :: "TravelPlannerState \<Rightarrow> pyval" where
  "state_flight_results state = (case flight_results state of None \<Rightarrow> PDict [] | Some v \<Rightarrow> v)"

definition state_hotel_results :: "TravelPlannerState \<Rightarrow> pyval" where
  "state_hotel_results state = (case hotel_results state of None \<Rightarrow> PDict [] | Some v \<Rightarrow> v)"





section \<open>Itinerary Compiler stage\<close>

text \<open>
  Modelled from the spec: the record \<open>Hotel\<close> of \<open>models.py\<close>: name and nightly price
  are strings, the rating is absent or a number, the amenities are a list of strings,
  address, description and perks are strings. The constructor raises
  \<open>ValidationError\<close> on any other value.
\<close>

record Hotel =
  hotel_name :: string
  price_per_night :: string
  rating :: pyval
  amenities :: "string list"
  address :: string
  description :: string
  perks :: string

fun is_number :: "pyval \<Rightarrow> bool" where
  "is_number (PInt i) = True"
| "is_number (PFloat r) = True"
| "is_number (PBool b) = True"
| "is_number _ = False"

fun is_str_list :: "pyval \<Rightarrow> bool" where
  "is_str_list (PList xs) = list_all is_str xs"
| "is_str_list _ = False"

fun the_str_list :: "pyval \<Rightarrow> string list" where
  "the_str_list (PList xs) = map the_str xs"
| "the_str_list _ = []"

definition Hotel_new ::
  "pyval \<Rightarrow> pyval \<Rightarrow> pyval \<Rightarrow> pyval \<Rightarrow> pyval \<Rightarrow> pyval \<Rightarrow> pyval \<Rightarrow> exn + Hotel" where
  "Hotel_new n p r am ad de pe =
     (let bad = map fst (filter (\<lambda>kv. \<not> snd kv)
                  [(''hotel_name'', is_str n), (''price_per_night'', is_str p),
                   (''rating'', r = PNone \<or> is_number r), (''amenities'', is_str_list am),
                   (''address'', is_str ad), (''description'', is_str de),
                   (''perks'', is_str pe)])
      in if bad = []
         then Inr \<lparr>hotel_name = the_str n, price_per_night = the_str p, rating = r,
                   amenities = the_str_list am, address = the_str ad,
                   description = the_str de, perks = the_str pe\<rparr>
         else Inl (validation_error ''Hotel'' bad))"

definition model_dump_hotel :: "Hotel \<Rightarrow> pyval" where
  "model_dump_hotel h =
     PDict [(''hotel_name'', PStr (hotel_name h)),
            (''price_per_night'', PStr (price_per_night h)),
            (''rating'', rating h),
            (''amenities'', PList (map PStr (amenities h))),
            (''address'', PStr (address h)),
            (''description'', PStr (description h)),
            (''perks'', PStr (perks h))]"

text \<open>\<open>v[:5]\<close>: a list or a string is cut to its first five elements; a dictionary
  cannot be indexed by a slice, and the other values cannot be indexed at all.\<close>

fun py_slice5 :: "pyval \<Rightarrow> exn + pyval" where
  "py_slice5 (PList xs) = Inr (PList (take 5 xs))"
| "py_slice5 (PStr s) = Inr (PStr (take 5 s))"
| "py_slice5 (PDict kvs) = Inl (TypeError (''unhashable type: '' @ quoted ''slice''))"
| "py_slice5 v = Inl (TypeError (quoted (type_name v) @ '' object is not subscriptable''))"

text \<open>
  The body of the first loop. The result is the typed record, or the note of the
  \<open>ValidationError\<close> handler; any other exception leaves the stage.
\<close>

definition prepare_hotel :: "(pyval \<Rightarrow> string) \<Rightarrow> pyval \<Rightarrow> exn + (string + Hotel)" where
  "prepare_hotel str_of hotel_data =
     then_do (py_get hotel_data ''price_per_night'' (PStr ''N/A'')) (\<lambda>pv.
     (let price_value = (if is_number pv then PStr (''$'' @ str_of pv) else pv) in
      then_do (py_get hotel_data ''hotel_name'' (PStr ''N/A'')) (\<lambda>n.
      then_do (py_get hotel_data ''rating'' PNone) (\<lambda>r.
      then_do (py_get hotel_data ''amenities'' (PList [])) (\<lambda>am.
      then_do (py_slice5 am) (\<lambda>am5.
        (case Hotel_new n price_value r am5 (PStr []) (PStr []) (PStr []) of
           Inr hotel_obj \<Rightarrow> Inr (Inr hotel_obj)
         | Inl e \<Rightarrow>
             (if is_ValidationError e
              then Inr (Inl (''Error preparing hotel data for augmentation: '' @ exn_str e
                             @ '' for data: '' @ str_of hotel_data))
              else Inl e))))))))"

fun prepare_hotels ::
  "(pyval \<Rightarrow> string) \<Rightarrow> pyval list \<Rightarrow> Hotel list \<Rightarrow> pyval list
   \<Rightarrow> exn + (Hotel list \<times> pyval list)" where
  "prepare_hotels str_of [] hotel_updated current_notes = Inr (hotel_updated, current_notes)"
| "prepare_hotels str_of (hotel_data # rest) hotel_updated current_notes =
     (case prepare_hotel str_of hotel_data of
        Inl e \<Rightarrow> Inl e
      | Inr (Inr hotel_obj) \<Rightarrow>
          prepare_hotels str_of rest (hotel_updated @ [hotel_obj]) current_notes
      | Inr (Inl note) \<Rightarrow>
          prepare_hotels str_of rest hotel_updated (current_notes @ [PStr note]))"

definition hotel_updated_of ::
  "(pyval \<Rightarrow> string) \<Rightarrow> pyval \<Rightarrow> pyval list \<Rightarrow> exn + (Hotel list \<times> pyval list)" where
  "hotel_updated_of str_of hotel_results_v current_notes =
     (if truthy hotel_results_v
      then then_do (py_get hotel_results_v ''hotels'' PNone) (\<lambda>hs.
             if truthy hs
             then then_do (py_iter hs) (\<lambda>elems. prepare_hotels str_of elems [] current_notes)
             else Inr ([], current_notes))
      else Inr ([], current_notes))"

text \<open>The text of the augmentation call is read line by line; a line with a colon
  sets the entry of its label.\<close>

definition augmented_details :: "string \<Rightarrow> (string \<times> string) list" where
  "augmented_details text =
     fold (\<lambda>line acc.
             if CHR '':'' \<in> set line
             then (case split_once CHR '':'' line of
                     (k, v) \<Rightarrow>
                       AList.update (replace_char CHR '' '' CHR ''_'' (py_lower (py_strip k)))
                                    (py_strip v) acc)
             else acc)
          (split_on CHR 0x0A text) []"

definition augmentation_input :: "(pyval \<Rightarrow> string) \<Rightarrow> pyval \<Rightarrow> Hotel \<Rightarrow> pydict" where
  "augmentation_input str_of hotel_city_updated hotel_obj =
     [(''hotel_name'', PStr (hotel_name hotel_obj)),
      (''hotel_city'', hotel_city_updated),
      (''hotel_rating'',
         PStr (if rating hotel_obj \<noteq> PNone then str_of (rating hotel_obj) else ''no rating'')),
      (''hotel_amenities'',
         PStr (if join '', '' (amenities hotel_obj) = [] then ''basic amenities''
               else join '', '' (amenities hotel_obj)))]"

text \<open>The body of the second loop: the record that is appended, and the note of the
  handler when the call raised.\<close>

definition augment_hotel ::
  "(pyval \<Rightarrow> string) \<Rightarrow> (pydict \<Rightarrow> exn + string) \<Rightarrow> pyval \<Rightarrow> Hotel
   \<Rightarrow> Hotel \<times> string option" where
  "augment_hotel str_of augmentation_chain hotel_city_updated hotel_obj =
     (case augmentation_chain (augmentation_input str_of hotel_city_updated hotel_obj) of
        Inr augmentation_result_str \<Rightarrow>
          (let details = augmented_details augmentation_result_str in
           (hotel_obj\<lparr>address := (case map_of details ''address'' of
                                      None \<Rightarrow> address hotel_obj | Some v \<Rightarrow> v),
                       description := (case map_of details ''description'' of
                                         None \<Rightarrow> description hotel_obj | Some v \<Rightarrow> v),
                       perks := (case map_of details ''perks'' of
                                   None \<Rightarrow> perks hotel_obj | Some v \<Rightarrow> v)\<rparr>,
            None))
      | Inl e \<Rightarrow>
          (hotel_obj,
           Some (''Error during hotel augmentation for '' @ hotel_name hotel_obj @ '': ''
                 @ exn_str e)))"

fun augment_hotels ::
  "(pyval \<Rightarrow> string) \<Rightarrow> (pydict \<Rightarrow> exn + string) \<Rightarrow> pyval \<Rightarrow> Hotel list \<Rightarrow> pyval list
   \<Rightarrow> Hotel list \<times> pyval list" where
  "augment_hotels str_of augmentation_chain city [] current_notes = ([], current_notes)"
| "augment_hotels str_of augmentation_chain city (hotel_obj # rest) current_notes =
     (case augment_hotel str_of augmentation_chain city hotel_obj of
        (augmented, note) \<Rightarrow>
          (case augment_hotels str_of augmentation_chain city rest
                  (case note of None \<Rightarrow> current_notes | Some n \<Rightarrow> current_notes @ [PStr n]) of
             (others, ns) \<Rightarrow> (augmented # others, ns)))"

text \<open>Both hotel phases of the stage: the typed records, then their augmentation,
  which runs only when there is a record.\<close>

definition itinerary_hotels ::
  "(pyval \<Rightarrow> string) \<Rightarrow> (pydict \<Rightarrow> exn + string) \<Rightarrow> TravelPlannerState
   \<Rightarrow> exn + (Hotel list \<times> pyval list)" where
  "itinerary_hotels str_of augmentation_chain state =
     then_do (hotel_updated_of str_of (state_hotel_results state) (state_notes state))
       (\<lambda>(hotel_updated, current_notes).
          if hotel_updated = [] then Inr ([], current_notes)
          else then_do (py_get (state_hotel_results state) ''place''
                          (dict_get (user_info state) ''hotel_city''))
                 (\<lambda>hotel_city_updated.
                    Inr (augment_hotels str_of augmentation_chain hotel_city_updated
                           hotel_updated current_notes)))"

text \<open>\<open>Flight(**flight_data)\<close>: the keyword arguments are the entries of a
  dictionary; a key that is absent is a field at fault.\<close>

definition flight_for_prompt :: "(pyval \<Rightarrow> string) \<Rightarrow> pyval \<Rightarrow> exn + (string + Flight)" where
  "flight_for_prompt str_of flight_data =
     (case flight_data of
        PDict d \<Rightarrow>
          (case Flight_new (dict_get d ''airline'') (dict_get d ''departure_time'')
                  (dict_get d ''arrival_time'') (dict_get d ''departure_airport'')
                  (dict_get d ''arrival_airport'') (dict_get d ''price'') of
             Inr f \<Rightarrow> Inr (Inr f)
           | Inl e \<Rightarrow>
               (if is_ValidationError e
                then Inr (Inl (''Error parsing flight for prompt: '' @ exn_str e
                               @ '' - data: '' @ str_of flight_data))
                else Inl e))
      | _ \<Rightarrow> Inl (TypeError (''argument after ** must be a mapping, not ''
                            @ type_name flight_data)))"

fun flights_loop ::
  "(pyval \<Rightarrow> string) \<Rightarrow> pyval list \<Rightarrow> Flight list \<Rightarrow> pyval list
   \<Rightarrow> exn + (Flight list \<times> pyval list)" where
  "flights_loop str_of [] flights_for_prompt current_notes = Inr (flights_for_prompt, current_notes)"
| "flights_loop str_of (flight_data # rest) flights_for_prompt current_notes =
     (case flight_for_prompt str_of flight_data of
        Inl e \<Rightarrow> Inl e
      | Inr (Inr f) \<Rightarrow> flights_loop str_of rest (flights_for_prompt @ [f]) current_notes
      | Inr (Inl note) \<Rightarrow>
          flights_loop str_of rest flights_for_prompt (current_notes @ [PStr note]))"

definition flights_for_prompt_of ::
  "(pyval \<Rightarrow> string) \<Rightarrow> pyval \<Rightarrow> pyval list \<Rightarrow> exn + (Flight list \<times> pyval list)" where
  "flights_for_prompt_of str_of flight_results_v current_notes =
     (if truthy flight_results_v
      then then_do (py_get flight_results_v ''flights'' PNone) (\<lambda>fs.
             if truthy fs
             then then_do (py_iter fs) (\<lambda>elems. flights_loop str_of elems [] current_notes)
             else Inr ([], current_notes))
      else Inr ([], current_notes))"

text \<open>
  \<open>int(v)\<close>. A string is read after stripping white space: an optional sign, then
  digits, which single underscores may group. \<open>None\<close> and the containers raise
  \<open>TypeError\<close>, a string that is no number raises \<open>ValueError\<close>.
\<close>

definition digits_value :: "string \<Rightarrow> nat option" where
  "digits_value s =
     (let groups = split_on CHR ''_'' s in
      if list_all (\<lambda>g. g \<noteq> [] \<and> list_all (\<lambda>c. digit_val c \<noteq> None) g) groups
      then Some (foldl (\<lambda>acc c. 10 * acc + (case digit_val c of None \<Rightarrow> 0 | Some d \<Rightarrow> d))
                   0 (concat groups))
      else None)"

definition int_of_str :: "string \<Rightarrow> int option" where
  "int_of_str s =
     (case py_strip s of
        [] \<Rightarrow> None
      | c # cs \<Rightarrow>
          (if c = CHR ''-'' then map_option (\<lambda>n. - int n) (digits_value cs)
           else if c = CHR ''+'' then map_option int (digits_value cs)
           else map_option int (digits_value (c # cs))))"

fun py_int :: "pyval \<Rightarrow> exn + int" where
  "py_int (PInt i) = Inr i"
| "py_int (PBool b) = Inr (if b then 1 else 0)"
| "py_int (PFloat r) = Inr (if r \<ge> 0 then \<lfloor>r\<rfloor> else \<lceil>r\<rceil>)"
| "py_int (PStr s) =
     (case int_of_str s of
        Some i \<Rightarrow> Inr i
      | None \<Rightarrow> Inl (ValueError (''invalid literal for int() with base 10'')))"
| "py_int v =
     Inl (TypeError (''int() argument must be a string, a bytes-like object or a real number, not ''
                     @ quoted (type_name v)))"

text \<open>The conversion of \<open>num_days\<close>: its handler catches \<open>ValueError\<close> only.\<close>

definition num_days_int_of :: "pydict \<Rightarrow> exn + int" where
  "num_days_int_of ui =
     (case py_int (dict_get_or ui ''num_days'' (PInt 0)) of
        Inr i \<Rightarrow> Inr i
      | Inl (ValueError m) \<Rightarrow> Inr 0
      | Inl e \<Rightarrow> Inl e)"

text \<open>The three lists read from the destination results; an absent result gives
  three empty lists.\<close>

definition activities_list_of :: "DestinationInformation option \<Rightarrow> ItineraryActivityDetail list" where
  "activities_list_of d = (case d of None \<Rightarrow> [] | Some info \<Rightarrow> activities info)"

definition travel_options_of :: "DestinationInformation option \<Rightarrow> TravelOption list" where
  "travel_options_of d = (case d of None \<Rightarrow> [] | Some info \<Rightarrow> local_travel_options info)"

definition research_details_of :: "DestinationInformation option \<Rightarrow> ResearchDetail list" where
  "research_details_of d = (case d of None \<Rightarrow> [] | Some info \<Rightarrow> destination_research info)"

definition compile_input ::
  "pydict \<Rightarrow> Flight list \<Rightarrow> Hotel list \<Rightarrow> DestinationInformation option \<Rightarrow> pyval list
   \<Rightarrow> pydict" where
  "compile_input ui flights_for_prompt augmented_hotel_objects destination_info_object
       current_notes =
     [(''user_info'', PDict ui),
      (''flights_json'', PList (map model_dump_flight flights_for_prompt)),
      (''augmented_hotel_details_objects_json'',
         PList (map model_dump_hotel augmented_hotel_objects)),
      (''activities_list_json'',
         PList (map model_dump_activity (activities_list_of destination_info_object))),
      (''travel_options_json'',
         PList (map model_dump_option (travel_options_of destination_info_object))),
      (''research_details_json'',
         PList (map model_dump_research (research_details_of destination_info_object))),
      (''notes'', PList current_notes)]"

definition compile_error_msg :: "exn \<Rightarrow> string" where
  "compile_error_msg e =
     (if is_ValidationError e
      then ''ValidationError during structured itinerary compilation: '' @ exn_str e
           @ ''. Debugging info: ''
           @ (case e of ValidationError m errs \<Rightarrow> errs | _ \<Rightarrow> [])
      else ''An unexpected error occurred during structured itinerary compilation: ''
           @ exn_str e)"

definition partial_itinerary :: "pyval list \<Rightarrow> pydict" where
  "partial_itinerary current_notes =
     [(''notes_and_warnings'', PList current_notes),
      (''disclaimer'', PStr ''Partial itinerary due to internal error.'')]"

text \<open>
  The handler of the final validation. \<open>final_itinerary_data\<close> is the dump of the
  compiled document with the request summary; the message is appended to its
  \<open>notes_and_warnings\<close> when the key is present, which needs a list there.
\<close>

definition final_validation_failed :: "pydict \<Rightarrow> exn \<Rightarrow> exn + pydict" where
  "final_validation_failed final_itinerary_data e =
     (let note = PStr (''Validation failed for final itinerary: '' @ exn_str e) in
      then_do
        (case map_of final_itinerary_data ''notes_and_warnings'' of
           None \<Rightarrow> Inr (AList.update ''notes_and_warnings'' (PList [note]) final_itinerary_data)
         | Some (PList ns) \<Rightarrow>
             Inr (AList.update ''notes_and_warnings'' (PList (ns @ [note])) final_itinerary_data)
         | Some v \<Rightarrow> Inl (no_attribute v ''append''))
        (\<lambda>with_note.
           Inr (AList.update ''disclaimer''
                  (PStr ''Partial itinerary generated due to final validation error.'')
                  with_note)))"

text \<open>
  The three calls of the stage the sources do not contain: the augmentation call, the
  structured compilation (given the \<open>num_days\<close> of the prompt and the input
  dictionary, it returns the dump of the compiled document or raises), and the
  constructor of \<open>FinalFullTravelItinerary\<close> (it returns the dump of the validated
  document or raises).
\<close>

record itinerary_calls =
  augmentation_chain :: "pydict \<Rightarrow> exn + string"
  structured_itinerary_chain :: "int \<Rightarrow> pydict \<Rightarrow> exn + pydict"
  FinalFullTravelItinerary :: "pydict \<Rightarrow> exn + pydict"

text \<open>The stage returns \<open>{"final_itinerary": ...}\<close>; the value of the model is that
  dictionary, or the exception that leaves the stage.\<close>

definition itinerary_agent_node ::
  "(pyval \<Rightarrow> string) \<Rightarrow> itinerary_calls \<Rightarrow> TravelPlannerState \<Rightarrow> exn + pydict" where
  "itinerary_agent_node str_of calls state =
     (let ui = user_info state; destination_info_object = destination_info_results state in
      then_do (itinerary_hotels str_of (augmentation_chain calls) state)
        (\<lambda>(augmented_hotel_objects, notes1).
      then_do (flights_for_prompt_of str_of (state_flight_results state) notes1)
        (\<lambda>(flights_for_prompt, current_notes).
      then_do (num_days_int_of ui) (\<lambda>num_days_int.
        (case structured_itinerary_chain calls num_days_int
                (compile_input ui flights_for_prompt augmented_hotel_objects
                   destination_info_object current_notes) of
           Inl e \<Rightarrow> Inr (partial_itinerary (current_notes @ [PStr (compile_error_msg e)]))
         | Inr compiled \<Rightarrow>
             (let final_itinerary_data = AList.update ''user_request_summary'' (PDict ui) compiled
              in case FinalFullTravelItinerary calls final_itinerary_data of
                   Inr final_compiled_itinerary \<Rightarrow> Inr final_compiled_itinerary
                 | Inl e \<Rightarrow>
                     (if is_ValidationError e
                      then final_validation_failed final_itinerary_data e
                      else Inl e)))))))"

section \<open>Concrete inputs\<close>

text \<open>The inputs at which the theorems below are instantiated.\<close>

definition example_str_of :: "pyval \<Rightarrow> string" where
  "example_str_of v =
     (case v of
        PStr s \<Rightarrow> s
      | PNone \<Rightarrow> ''None''
      | PInt i \<Rightarrow> (if i = 450 then ''450'' else if i = 6 then ''6'' else ''0'')
      | _ \<Rightarrow> ''?'')"

definition example_hotel :: "string \<Rightarrow> pyval" where
  "example_hotel name =
     PDict [(''name'', PStr name),
            (''rate_per_night'', PDict [(''lowest'', PStr ''$120'')]),
            (''overall_rating'', PFloat 4.5),
            (''amenities'', PList [PStr ''Wi-Fi'', PStr ''Pool'', PStr ''Spa'', PStr ''Bar'',
                                   PStr ''Gym'', PStr ''Parking''])]"

definition example_hotel_search :: "pydict \<Rightarrow> exn + pydict" where
  "example_hotel_search params =
     Inr [(''properties'', PList [example_hotel ''Hotel A'', example_hotel ''Hotel B'',
                                  example_hotel ''Hotel C''])]"

definition example_leg :: "string \<Rightarrow> string \<Rightarrow> pyval" where
  "example_leg a b =
     PDict [(''airline'', PStr ''Air''),
            (''departure_airport'', PDict [(''name'', PStr a), (''time'', PStr ''2025-06-02 08:00'')]),
            (''arrival_airport'', PDict [(''name'', PStr b), (''time'', PStr ''2025-06-02 12:00'')]),
            (''price'', PInt 200)]"

definition example_best0 :: pyval where
  "example_best0 =
     PDict [(''flights'', PList [example_leg ''DXB'' ''SIN'', example_leg ''SIN'' ''SYD'']),
            (''price'', PInt 450)]"

definition example_later :: "pyval list" where
  "example_later =
     [PDict [(''flights'', PList [example_leg ''DXB'' ''SYD'']), (''price'', PInt 900)]]"

definition example_flight_search :: "pydict \<Rightarrow> exn + pydict" where
  "example_flight_search params = Inr [(''best_flights'', PList (example_best0 # example_later))]"

definition example_simplified_hotel :: "string \<Rightarrow> pyval" where
  "example_simplified_hotel name =
     PDict [(''hotel_name'', PStr name),
            (''price_per_night'', PStr ''$120''),
            (''rating'', PFloat 4.5),
            (''amenities'', PList [PStr ''Wi-Fi'', PStr ''Pool'', PStr ''Spa'', PStr ''Bar'',
                                   PStr ''Gym'', PStr ''Parking''])]"

text \<open>The hotel tool as the Hotel stage calls it: \<open>hotel_search\<close> on the arguments of
  the call, with the example search behind it.\<close>

definition example_hotel_tool :: "pydict \<Rightarrow> exn + pydict" where
  "example_hotel_tool args =
     hotel_search example_hotel_search ''key''
       (the_str (dict_get args ''place''))
       (the_str (dict_get args ''check_in_date''))
       (the_str (dict_get args ''check_out_date''))
       (case dict_get args ''number_of_adults'' of PInt n \<Rightarrow> n | _ \<Rightarrow> 0)
       None"

definition example_state :: "pydict \<Rightarrow> TravelPlannerState" where
  "example_state ui =
     \<lparr>user_info = ui, flight_results = None, hotel_results = None,
      destination_info_results = None, notes_key = Some []\<rparr>"

definition user_info_without_adults :: pydict where
  "user_info_without_adults =
     [(''hotel_city'', PStr ''Paris''), (''departure_date'', PStr ''2025-06-02''),
      (''return_date'', PStr ''2025-06-07'')]"

definition user_info_without_destination :: pydict where
  "user_info_without_destination =
     [(''source_iata'', PStr ''DXB''), (''departure_date'', PStr ''2025-06-02''),
      (''return_date'', PStr [])]"

definition example_augmentation_chain :: "pydict \<Rightarrow> exn + string" where
  "example_augmentation_chain inp =
     (if dict_get inp ''hotel_name'' = PStr ''Hotel A''
      then Inl (OtherException ''deadline exceeded'')
      else Inr (''Address: 1 Main Street, Paris'' @ [CHR 0x0A]
                @ ''Description: A quiet hotel near the river.'' @ [CHR 0x0A]
                @ ''Perks: Central and calm.''))"

definition example_hotel_state :: TravelPlannerState where
  "example_hotel_state =
     \<lparr>user_info = [(''hotel_city'', PStr ''Paris'')],
      flight_results = None,
      hotel_results =
        Some (PDict (hotels_response ''Paris''
                [example_simplified_hotel ''Hotel A'', example_simplified_hotel ''Hotel B''] None)),
      destination_info_results = None,
      notes_key = Some []\<rparr>"

definition example_hotel_record :: "string \<Rightarrow> Hotel" where
  "example_hotel_record name =
     \<lparr>hotel_name = name, price_per_night = ''$120'', rating = PFloat 4.5,
      amenities = [''Wi-Fi'', ''Pool'', ''Spa'', ''Bar'', ''Gym''],
      address = [], description = [], perks = []\<rparr>"

definition user_info_num_days_None :: pydict where
  "user_info_num_days_None =
     [(''hotel_city'', PStr ''Paris''), (''departure_date'', PStr ''June 2''),
      (''return_date'', PStr ''2025-06-07''), (''num_days'', PNone)]"






section \<open>Properties of the Info Extraction stage\<close>

lemma strptime_ymd_raises_ValueError: "strptime_ymd s = Inl e \<Longrightarrow> \<exists>m. e = ValueError m"
  by (auto simp: strptime_ymd_def make_date_def split: list.splits if_splits prod.splits)

lemma calculated_num_days_Inr:
  "strptime_ymd (departure_date e) = Inr d1 \<Longrightarrow> strptime_ymd (return_date e) = Inr d2
   \<Longrightarrow> calculated_num_days e = Inr (timedelta_days d2 d1 + 1)"
  by (simp add: calculated_num_days_def)

lemma calculated_num_days_Inl:
  assumes "(\<exists>err. strptime_ymd (departure_date e) = Inl err)
           \<or> (\<exists>err. strptime_ymd (return_date e) = Inl err)"
  shows "\<exists>m. calculated_num_days e = Inl (ValueError m)"
proof (cases "strptime_ymd (departure_date e)")
  case (Inl err)
  then show ?thesis
    using strptime_ymd_raises_ValueError [OF Inl] by (auto simp: calculated_num_days_def)
next
  case (Inr d1)
  with assms obtain err where r: "strptime_ymd (return_date e) = Inl err" by auto
  from strptime_ymd_raises_ValueError [OF r] r Inr show ?thesis
    by (auto simp: calculated_num_days_def)
qed

text \<open>
  Claim C1. When the structured extraction returns a record whose two dates parse in
  the format YYYY-MM-DD, the stage stores under \<open>num_days\<close> the number of days from the
  departure date to the return date plus one, whatever day count the model gave. When
  one of the dates does not parse, the day count of the model is kept, and the stage
  appends the note about the dates before the note of success.
\<close>

theorem C1_num_days_recomputed:
  assumes "extractor_chain (user_info s) = Inr e"
  shows "(\<forall>d1 d2. strptime_ymd (departure_date e) = Inr d1
                   \<and> strptime_ymd (return_date e) = Inr d2 \<longrightarrow>
            map_of (info_user_info (info_extractor_agent_node extractor_chain s)) ''num_days''
              = Some (PInt (timedelta_days d2 d1 + 1)))
       \<and> ((\<exists>err. strptime_ymd (departure_date e) = Inl err)
            \<or> (\<exists>err. strptime_ymd (return_date e) = Inl err) \<longrightarrow>
            map_of (info_user_info (info_extractor_agent_node extractor_chain s)) ''num_days''
              = Some (num_days e)
          \<and> info_notes (info_extractor_agent_node extractor_chain s)
              = state_notes s @ [PStr could_not_calculate_note, PStr extracted_note])"
proof (intro conjI allI impI)
  fix d1 d2
  assume "strptime_ymd (departure_date e) = Inr d1 \<and> strptime_ymd (return_date e) = Inr d2"
  then have "calculated_num_days e = Inr (timedelta_days d2 d1 + 1)"
    by (simp add: calculated_num_days_Inr)
  with assms show "map_of (info_user_info (info_extractor_agent_node extractor_chain s)) ''num_days''
              = Some (PInt (timedelta_days d2 d1 + 1))"
    by (simp add: info_extractor_agent_node_def model_dump_info_def Let_def dict_update_def update_conv')
next
  assume a: "(\<exists>err. strptime_ymd (departure_date e) = Inl err)
             \<or> (\<exists>err. strptime_ymd (return_date e) = Inl err)"
  from calculated_num_days_Inl [OF a]
  obtain m where m: "calculated_num_days e = Inl (ValueError m)" ..
  with assms show "map_of (info_user_info (info_extractor_agent_node extractor_chain s)) ''num_days''
                     = Some (num_days e)"
    by (simp add: info_extractor_agent_node_def model_dump_info_def Let_def dict_update_def update_conv')
  from m assms show "info_notes (info_extractor_agent_node extractor_chain s)
              = state_notes s @ [PStr could_not_calculate_note, PStr extracted_note]"
    by (simp add: info_extractor_agent_node_def model_dump_info_def Let_def dict_update_def update_conv')
qed

lemma strptime_ymd_june_2: "strptime_ymd ''2025-06-02'' = Inr \<lparr>year = 2025, month = 6, day = 2\<rparr>"
  by code_simp

lemma strptime_ymd_june_7: "strptime_ymd ''2025-06-07'' = Inr \<lparr>year = 2025, month = 6, day = 7\<rparr>"
  by code_simp

lemma strptime_ymd_words: "strptime_ymd ''June 2'' = Inl (ValueError ''time data does not match format'')"
  by code_simp

lemma timedelta_days_june:
  "timedelta_days \<lparr>year = 2025, month = 6, day = 7\<rparr> \<lparr>year = 2025, month = 6, day = 2\<rparr> = 5"
  by code_simp

theorem C1_num_days_recomputed_witness:
  "map_of (info_user_info (info_extractor_agent_node
       (\<lambda>ui. Inr \<lparr>departure_date = ''2025-06-02'', return_date = ''2025-06-07'',
                   num_days = PInt 99, other_fields = []\<rparr>)
       \<lparr>user_info = [], flight_results = None, hotel_results = None,
        destination_info_results = None, notes_key = Some []\<rparr>))
     ''num_days'' = Some (PInt 6)
   \<and> map_of (info_user_info (info_extractor_agent_node
       (\<lambda>ui. Inr \<lparr>departure_date = ''June 2'', return_date = ''2025-06-07'',
                   num_days = PInt 99, other_fields = []\<rparr>)
       \<lparr>user_info = [], flight_results = None, hotel_results = None,
        destination_info_results = None, notes_key = Some []\<rparr>))
     ''num_days'' = Some (PInt 99)"
  using C1_num_days_recomputed [of
       "\<lambda>ui. Inr \<lparr>departure_date = ''2025-06-02'', return_date = ''2025-06-07'',
                   num_days = PInt 99, other_fields = []\<rparr>"
       "\<lparr>user_info = [], flight_results = None, hotel_results = None,
        destination_info_results = None, notes_key = Some []\<rparr>"
       "\<lparr>departure_date = ''2025-06-02'', return_date = ''2025-06-07'',
         num_days = PInt 99, other_fields = []\<rparr>"]
    C1_num_days_recomputed [of
       "\<lambda>ui. Inr \<lparr>departure_date = ''June 2'', return_date = ''2025-06-07'',
                   num_days = PInt 99, other_fields = []\<rparr>"
       "\<lparr>user_info = [], flight_results = None, hotel_results = None,
        destination_info_results = None, notes_key = Some []\<rparr>"
       "\<lparr>departure_date = ''June 2'', return_date = ''2025-06-07'',
         num_days = PInt 99, other_fields = []\<rparr>"]
  by (simp add: strptime_ymd_june_2 strptime_ymd_june_7 strptime_ymd_words timedelta_days_june)

text \<open>
  Claim C2. When the structured extraction raises, a validation error or any other
  exception, the stage returns the \<open>user_info\<close> it was given, unchanged, and the earlier
  notes followed by exactly one note, the error message. The stage is a total
  function: it returns an update on every input and raises nothing.
\<close>

theorem C2_extraction_failure_keeps_user_info:
  assumes "extractor_chain (user_info s) = Inl e"
  shows "info_user_info (info_extractor_agent_node extractor_chain s) = user_info s
       \<and> (\<exists>note. info_notes (info_extractor_agent_node extractor_chain s)
                    = state_notes s @ [note]
                \<and> note = PStr (if is_ValidationError e then info_validation_msg e
                                   else info_unexpected_msg e))"
  using assms
  by (cases e) (simp_all add: info_extractor_agent_node_def info_handler_def Let_def)

theorem C2_extraction_failure_keeps_user_info_witness:
  "info_user_info (info_extractor_agent_node
       (\<lambda>ui. Inl (ValidationError ''1 validation error'' ''[]''))
       \<lparr>user_info = [(''destination'', PStr ''Japan'')], flight_results = None,
        hotel_results = None, destination_info_results = None, notes_key = Some [PStr ''n'']\<rparr>)
     = [(''destination'', PStr ''Japan'')]
   \<and> length (info_notes (info_extractor_agent_node
       (\<lambda>ui. Inl (ValidationError ''1 validation error'' ''[]''))
       \<lparr>user_info = [(''destination'', PStr ''Japan'')], flight_results = None,
        hotel_results = None, destination_info_results = None, notes_key = Some [PStr ''n'']\<rparr>)) = 2"
  using C2_extraction_failure_keeps_user_info [of
       "\<lambda>ui. Inl (ValidationError ''1 validation error'' ''[]'')"
       "\<lparr>user_info = [(''destination'', PStr ''Japan'')], flight_results = None,
        hotel_results = None, destination_info_results = None, notes_key = Some [PStr ''n'']\<rparr>"
       "ValidationError ''1 validation error'' ''[]''"]
  by (auto simp: state_notes_def)

section \<open>Properties of the search tools\<close>

lemma then_do_Inr_iff: "then_do r f = Inr y \<longleftrightarrow> (\<exists>v. r = Inr v \<and> f v = Inr y)"
  by (cases r) (simp_all add: then_do_def)

lemma hotel_loop_length:
  "hotel_loop i elems acc = Inr r \<Longrightarrow> length r \<le> length acc + (2 - i)"
proof (induction elems arbitrary: i acc)
  case Nil
  then show ?case by simp
next
  case (Cons result rest)
  show ?case
  proof (cases "i \<ge> 2")
    case True
    with Cons.prems show ?thesis by simp
  next
    case False
    with Cons.prems obtain hotel_info where
      h: "hotel_info_of result = Inr hotel_info"
      and l: "hotel_loop (Suc i) rest (acc @ [hotel_info]) = Inr r"
      by (auto split: sum.splits)
    from Cons.IH [OF l] False show ?thesis by simp
  qed
qed

text \<open>
  Claim C5. Whatever the external search answers, and however many entries its
  answer lists, the \<open>hotels\<close> list of a dictionary that \<open>hotel_search\<close> returns has at
  most two elements.
\<close>

theorem C5_hotels_at_most_two:
  assumes "hotel_search GoogleSearch api_key place check_in check_out
             number_of_adults budget = Inr out"
  shows "\<exists>hs. map_of out ''hotels'' = Some (PList hs) \<and> length hs \<le> 2"
proof (cases "GoogleSearch (hotel_params api_key place check_in check_out number_of_adults budget)")
  case (Inl e)
  with assms show ?thesis by (auto simp: hotel_search_def hotels_response_def)
next
  case (Inr results)
  with assms obtain elems simplified where
    loop: "hotel_loop 0 elems [] = Inr simplified"
    and out: "out = (if simplified = []
                     then hotels_response place [] (Some ''No hotel options found.'')
                     else hotels_response place simplified None)"
    by (auto simp: hotel_search_def Let_def then_do_Inr_iff split: if_splits)
  from hotel_loop_length [OF loop] have "length simplified \<le> 2" by simp
  with out show ?thesis by (auto simp: hotels_response_def)
qed

lemma map_exn_Inr:
  "map_exn f xs = Inr ys \<Longrightarrow> list_all2 (\<lambda>x y. f x = Inr y) xs ys"
proof (induction xs arbitrary: ys)
  case Nil
  then show ?case by simp
next
  case (Cons x xs)
  from Cons.prems obtain y ys' where "f x = Inr y" "map_exn f xs = Inr ys'" "ys = y # ys'"
    by (auto split: sum.splits)
  with Cons.IH show ?case by simp
qed

lemma simplify_leg_price:
  assumes "simplify_leg str_of best0 leg = Inr f"
  shows "\<exists>d p. f = PDict d \<and> py_get best0 ''price'' (PStr ''N/A'') = Inr p
          \<and> map_of d ''price'' = Some (PStr (str_of p))"
  using assms by (auto simp: simplify_leg_def then_do_Inr_iff)

text \<open>
  Claim C10. When the search answers without raising and its \<open>best_flights\<close> is a
  list with first option \<open>best0\<close>, a dictionary that \<open>fetch_flights\<close> returns holds in
  \<open>flights\<close> one entry for each leg of \<open>best0\<close>, in order, built from that leg (none when
  \<open>best0\<close> lists no legs); the later options do not occur in it. The \<open>price\<close> of every
  entry is the text of the price of \<open>best0\<close> itself, or of \<open>N/A\<close> when \<open>best0\<close> has none.
\<close>

theorem C10_first_option_only:
  assumes search: "GoogleSearch (flight_params api_key source destination dep ret) = Inr results"
    and best: "dict_get_or results ''best_flights'' (PList []) = PList (best0 # later)"
    and ret: "fetch_flights str_of GoogleSearch api_key source destination dep ret = Inr out"
  shows "\<exists>legs fl. py_get best0 ''flights'' (PList []) = Inr legs
           \<and> map_of out ''flights'' = Some (PList fl)
           \<and> (if truthy legs
               then \<exists>leg_list. py_iter legs = Inr leg_list
                      \<and> list_all2 (\<lambda>leg f. simplify_leg str_of best0 leg = Inr f) leg_list fl
               else fl = [])
           \<and> (\<forall>f \<in> set fl. \<exists>d p. f = PDict d
                  \<and> py_get best0 ''price'' (PStr ''N/A'') = Inr p
                  \<and> map_of d ''price'' = Some (PStr (str_of p)))"
proof -
  from ret search best obtain has_legs where
    g: "py_get best0 ''flights'' PNone = Inr has_legs"
    by (auto simp: fetch_flights_def Let_def then_do_Inr_iff)
  then obtain d where d: "best0 = PDict d" by (cases best0) auto
  let ?legs = "dict_get_or d ''flights'' (PList [])"
  have legs: "py_get best0 ''flights'' (PList []) = Inr ?legs" using d by simp
  have t: "truthy has_legs = truthy ?legs"
    using g d by (auto simp: dict_get_or_def split: option.splits)
  show ?thesis
  proof (cases "truthy ?legs")
    case True
    with ret search best g t legs obtain leg_list fl where
      it: "py_iter ?legs = Inr leg_list"
      and m: "map_exn (simplify_leg str_of best0) leg_list = Inr fl"
      and out: "out = flights_response source destination fl None"
      by (auto simp: fetch_flights_def Let_def then_do_Inr_iff)
    from m have l2: "list_all2 (\<lambda>leg f. simplify_leg str_of best0 leg = Inr f) leg_list fl"
      by (rule map_exn_Inr)
    have "\<forall>f \<in> set fl. \<exists>d p. f = PDict d
                  \<and> py_get best0 ''price'' (PStr ''N/A'') = Inr p
                  \<and> map_of d ''price'' = Some (PStr (str_of p))"
    proof
      fix f assume "f \<in> set fl"
      with l2 obtain leg where "simplify_leg str_of best0 leg = Inr f"
        by (auto simp: list_all2_conv_all_nth in_set_conv_nth)
      then show "\<exists>d p. f = PDict d
                  \<and> py_get best0 ''price'' (PStr ''N/A'') = Inr p
                  \<and> map_of d ''price'' = Some (PStr (str_of p))"
        by (rule simplify_leg_price)
    qed
    with True legs it l2 out show ?thesis
      by (auto simp: flights_response_def)
  next
    case False
    with ret search best g t have
      "out = flights_response source destination []
               (Some ''No detailed flight legs found within the best flight option.'')"
      by (auto simp: fetch_flights_def Let_def then_do_Inr_iff)
    with False legs show ?thesis by (auto simp: flights_response_def)
  qed
qed

section \<open>Properties of the Flight and Hotel stages\<close>

lemma join_names: "f \<in> set fs \<Longrightarrow> \<exists>ps ss. join sep fs = ps @ f @ ss"
proof (induction sep fs rule: join.induct)
  case (1 sep)
  then show ?case by simp
next
  case (2 sep x)
  then have "join sep [x] = [] @ f @ []" by simp
  then show ?case by blast
next
  case (3 sep x y ys)
  show ?case
  proof (cases "f = x")
    case True
    then have "join sep (x # y # ys) = [] @ f @ (sep @ join sep (y # ys))" by simp
    then show ?thesis by blast
  next
    case False
    with 3 obtain ps ss where "join sep (y # ys) = ps @ f @ ss" by auto
    then have "join sep (x # y # ys) = (x @ sep @ ps) @ f @ ss" by simp
    then show ?thesis by blast
  qed
qed

lemma missing_named:
  assumes "f \<in> set names" "\<not> truthy (dict_get ui f)"
  shows "\<exists>ps ss. pre @ join '', '' (missing_fields ui names) = ps @ f @ ss"
proof -
  from assms have "f \<in> set (missing_fields ui names)" by (simp add: missing_fields_def)
  from join_names [OF this]
  obtain ps ss where "join '', '' (missing_fields ui names) = ps @ f @ ss"
    by blast
  then have "pre @ join '', '' (missing_fields ui names) = (pre @ ps) @ f @ ss" by simp
  then show ?thesis by blast
qed

text \<open>
  Claim C3. When one of \<open>source_iata\<close>, \<open>destination_iata\<close>, \<open>departure_date\<close>,
  \<open>return_date\<close> is absent from \<open>user_info\<close> or empty, the Flight stage returns
  \<open>flight_results\<close> with an empty \<open>flights\<close> list and a note, the same note is appended
  to the notes, and the text of the note contains the name of every one of the four
  fields that is absent or empty. The stage is a total function: it raises nothing.
\<close>

theorem C3_flight_missing_fields:
  assumes "\<exists>f \<in> set flight_fields. \<not> truthy (dict_get (user_info s) f)"
  shows "\<exists>msg. flight_agent_node str_of tool s
                  = \<lparr>fu_flight_results = [(''flights'', PList []), (''note'', PStr msg)],
                     fu_notes = state_notes s @ [PStr msg]\<rparr>
              \<and> (\<forall>f \<in> set flight_fields. \<not> truthy (dict_get (user_info s) f)
                    \<longrightarrow> (\<exists>ps ss. msg = ps @ f @ ss))"
proof -
  let ?ui = "user_info s"
  let ?msg = "''Error during Flight Agent processing: ''
              @ ''Missing required flight parameters from user_info: ''
              @ join '', '' (missing_fields ?ui flight_fields)"
  from assms
  have "\<not> list_all truthy [dict_get ?ui ''source_iata'', dict_get ?ui ''destination_iata'',
                       dict_get ?ui ''departure_date'', dict_get ?ui ''return_date'']"
    by (auto simp: flight_fields_def)
  then have "flight_try str_of tool ?ui (state_notes s)
        = Inl (ValueError (''Missing required flight parameters from user_info: ''
                               @ join '', '' (missing_fields ?ui flight_fields)))"
    by (simp add: flight_try_def Let_def)
  then have r: "flight_agent_node str_of tool s
                  = \<lparr>fu_flight_results = [(''flights'', PList []), (''note'', PStr ?msg)],
                     fu_notes = state_notes s @ [PStr ?msg]\<rparr>"
    by (simp add: flight_agent_node_def Let_def)
  have "\<forall>f \<in> set flight_fields. \<not> truthy (dict_get ?ui f) \<longrightarrow> (\<exists>ps ss. ?msg = ps @ f @ ss)"
    using missing_named [of _ flight_fields ?ui
       "''Error during Flight Agent processing: ''
        @ ''Missing required flight parameters from user_info: ''"]
    by auto
  with r show ?thesis by blast
qed

text \<open>
  Claim C4, as amended. The Hotel stage reads the adult count with the default 1.
  When \<open>hotel_city\<close>, \<open>departure_date\<close> or \<open>return_date\<close> is absent from \<open>user_info\<close> or
  empty, or the adult count is present but empty (\<open>None\<close>, 0), the stage returns
  \<open>hotel_results\<close> with an empty \<open>hotels\<close> list and a note, appends the note to the
  notes, and the text of the note contains the name of every one of the four fields
  that \<open>user_info.get\<close> finds absent or empty. The stage raises nothing.
\<close>

theorem C4_hotel_missing_fields:
  assumes "\<not> truthy (dict_get (user_info s) ''hotel_city'')
         \<or> \<not> truthy (dict_get (user_info s) ''departure_date'')
         \<or> \<not> truthy (dict_get (user_info s) ''return_date'')
         \<or> \<not> truthy (dict_get_or (user_info s) ''no_of_adults'' (PInt 1))"
  shows "\<exists>msg. hotel_agent_node tool s
                  = \<lparr>hu_hotel_results = [(''hotels'', PList []), (''note'', PStr msg)],
                     hu_notes = state_notes s @ [PStr msg]\<rparr>
              \<and> (\<forall>f \<in> set hotel_fields. \<not> truthy (dict_get (user_info s) f)
                    \<longrightarrow> (\<exists>ps ss. msg = ps @ f @ ss))"
proof -
  let ?ui = "user_info s"
  let ?msg = "''Hotel search failed: ''
              @ ''Missing required hotel parameters from user_info: ''
              @ join '', '' (missing_fields ?ui hotel_fields)"
  from assms
  have "\<not> list_all truthy [dict_get ?ui ''hotel_city'', dict_get ?ui ''departure_date'',
                       dict_get ?ui ''return_date'', dict_get_or ?ui ''no_of_adults'' (PInt 1)]"
    by auto
  then have "hotel_try tool ?ui (state_notes s)
        = Inl (ValueError (''Missing required hotel parameters from user_info: ''
                               @ join '', '' (missing_fields ?ui hotel_fields)))"
    by (simp add: hotel_try_def Let_def)
  then have r: "hotel_agent_node tool s
                  = \<lparr>hu_hotel_results = [(''hotels'', PList []), (''note'', PStr ?msg)],
                     hu_notes = state_notes s @ [PStr ?msg]\<rparr>"
    by (simp add: hotel_agent_node_def Let_def)
  have "\<forall>f \<in> set hotel_fields. \<not> truthy (dict_get ?ui f) \<longrightarrow> (\<exists>ps ss. ?msg = ps @ f @ ss)"
    using missing_named [of _ hotel_fields ?ui
       "''Hotel search failed: '' @ ''Missing required hotel parameters from user_info: ''"]
    by auto
  with r show ?thesis by blast
qed

section \<open>Properties of the hotels of the Itinerary Compiler stage\<close>

lemma augment_hotel_raises:
  "chain (augmentation_input str_of city h) = Inl e
   \<Longrightarrow> fst (augment_hotel str_of chain city h) = h"
  by (simp add: augment_hotel_def)

lemma augment_hotel_amenities:
  "amenities (fst (augment_hotel str_of chain city h)) = amenities h"
  by (cases "chain (augmentation_input str_of city h)") (simp_all add: augment_hotel_def Let_def)

lemma augment_hotels_fst:
  "fst (augment_hotels str_of chain city hs ns)
   = map (\<lambda>h. fst (augment_hotel str_of chain city h)) hs"
  by (induction hs arbitrary: ns) (simp_all add: split_beta)

text \<open>
  Claim C7. The augmentation loop returns as many hotel records as it is given, in the
  same order, and where the augmentation call raises for a hotel, the record at its
  position in the output is the record before augmentation: address, description and
  perks included.
\<close>

theorem C7_augmentation_keeps_hotels:
  "length (fst (augment_hotels str_of chain city hotel_updated current_notes))
     = length hotel_updated
   \<and> (\<forall>i < length hotel_updated.
        (\<exists>e. chain (augmentation_input str_of city (hotel_updated ! i)) = Inl e)
        \<longrightarrow> fst (augment_hotels str_of chain city hotel_updated current_notes) ! i
              = hotel_updated ! i)"
  by (auto simp: augment_hotels_fst augment_hotel_raises)

lemma Hotel_new_amenities:
  "Hotel_new n p r am ad de pe = Inr h \<Longrightarrow> amenities h = the_str_list am"
  by (auto simp: Hotel_new_def Let_def split: if_splits)

lemma py_slice5_length:
  "py_slice5 am = Inr am5 \<Longrightarrow> length (the_str_list am5) \<le> 5"
  by (cases am) auto

lemma prepare_hotel_amenities:
  assumes "prepare_hotel str_of d = Inr (Inr h)"
  shows "length (amenities h) \<le> 5"
proof -
  from assms obtain pv n r am am5 where
    s: "py_slice5 am = Inr am5"
    and c: "(case Hotel_new n (if is_number pv then PStr (''$'' @ str_of pv) else pv) r am5
                    (PStr []) (PStr []) (PStr []) of
               Inr hotel_obj \<Rightarrow> Inr (Inr hotel_obj)
             | Inl e \<Rightarrow>
                 (if is_ValidationError e
                  then Inr (Inl (''Error preparing hotel data for augmentation: '' @ exn_str e
                                 @ '' for data: '' @ str_of d))
                  else Inl e)) = (Inr (Inr h) :: exn + (string + Hotel))"
    unfolding prepare_hotel_def Let_def then_do_Inr_iff by blast
  then have h: "Hotel_new n (if is_number pv then PStr (''$'' @ str_of pv) else pv) r am5
                    (PStr []) (PStr []) (PStr []) = Inr h"
    by (cases "Hotel_new n (if is_number pv then PStr (''$'' @ str_of pv) else pv) r am5
                    (PStr []) (PStr []) (PStr [])") (auto split: if_splits)
  from Hotel_new_amenities [OF h] py_slice5_length [OF s] show ?thesis by simp
qed

lemma prepare_hotels_amenities:
  "prepare_hotels str_of ds acc ns = Inr (hu, ns')
   \<Longrightarrow> \<forall>h \<in> set acc. length (amenities h) \<le> 5
   \<Longrightarrow> \<forall>h \<in> set hu. length (amenities h) \<le> 5"
proof (induction ds arbitrary: acc ns)
  case Nil
  then show ?case by simp
next
  case (Cons d ds)
  show ?case
  proof (cases "prepare_hotel str_of d")
    case (Inl e)
    with Cons.prems show ?thesis by simp
  next
    case (Inr res)
    show ?thesis
    proof (cases res)
      case (Inl msg)
      with Inr Cons.prems have "prepare_hotels str_of ds acc (ns @ [PStr msg]) = Inr (hu, ns')"
        by simp
      from Cons.IH [OF this Cons.prems(2)] show ?thesis .
    next
      case (Inr h)
      with \<open>prepare_hotel str_of d = Inr res\<close> have p: "prepare_hotel str_of d = Inr (Inr h)"
        by simp
      with Cons.prems have l: "prepare_hotels str_of ds (acc @ [h]) ns = Inr (hu, ns')"
        by simp
      from prepare_hotel_amenities [OF p] Cons.prems(2)
      have "\<forall>x \<in> set (acc @ [h]). length (amenities x) \<le> 5" by auto
      from Cons.IH [OF l this] show ?thesis .
    qed
  qed
qed

lemma hotel_updated_of_amenities:
  assumes "hotel_updated_of str_of hr ns = Inr (hu, ns')"
  shows "\<forall>h \<in> set hu. length (amenities h) \<le> 5"
proof (cases "hu = []")
  case True
  then show ?thesis by simp
next
  case False
  with assms obtain elems where "prepare_hotels str_of elems [] ns = Inr (hu, ns')"
    by (auto simp: hotel_updated_of_def then_do_Inr_iff split: if_splits)
  from prepare_hotels_amenities [OF this] show ?thesis by simp
qed

text \<open>
  Claim C6, as amended. The truncation to five amenities is made by the Itinerary
  Compiler stage when it builds its \<open>Hotel\<close> records from \<open>hotel_results\<close>: every record
  of \<open>hotel_updated\<close>, and every record of \<open>augmented_hotel_objects\<close> after the
  augmentation, has at most five amenities, however many the search returned. The
  dictionaries \<open>hotel_search\<close> returns, which the Hotel stage stores in
  \<open>hotel_results\<close>, keep the full list.
\<close>

theorem C6_typed_hotels_amenities:
  "(hotel_updated_of str_of (state_hotel_results state) (state_notes state)
       = Inr (hotel_updated, notes1)
     \<longrightarrow> (\<forall>h \<in> set hotel_updated. length (amenities h) \<le> 5))
   \<and> (itinerary_hotels str_of chain state = Inr (augmented_hotel_objects, notes2)
     \<longrightarrow> (\<forall>h \<in> set augmented_hotel_objects. length (amenities h) \<le> 5))"
proof (intro conjI impI)
  assume "hotel_updated_of str_of (state_hotel_results state) (state_notes state)
            = Inr (hotel_updated, notes1)"
  then show "\<forall>h \<in> set hotel_updated. length (amenities h) \<le> 5"
    by (rule hotel_updated_of_amenities)
next
  assume a: "itinerary_hotels str_of chain state = Inr (augmented_hotel_objects, notes2)"
  then obtain hu ns where
    u: "hotel_updated_of str_of (state_hotel_results state) (state_notes state) = Inr (hu, ns)"
    by (auto simp: itinerary_hotels_def then_do_Inr_iff)
  from hotel_updated_of_amenities [OF u] have b: "\<forall>h \<in> set hu. length (amenities h) \<le> 5" .
  show "\<forall>h \<in> set augmented_hotel_objects. length (amenities h) \<le> 5"
  proof (cases "hu = []")
    case True
    with a u show ?thesis by (auto simp: itinerary_hotels_def then_do_def)
  next
    case False
    with a u obtain city where
      "augment_hotels str_of chain city hu ns = (augmented_hotel_objects, notes2)"
      by (auto simp: itinerary_hotels_def then_do_Inr_iff then_do_def split: sum.splits)
    then have "augmented_hotel_objects = map (\<lambda>h. fst (augment_hotel str_of chain city h)) hu"
      using augment_hotels_fst [of str_of chain city hu ns] by simp
    with b show ?thesis by (auto simp: augment_hotel_amenities)
  qed
qed

section \<open>Exceptions of the Destination and Itinerary Compiler stages\<close>


text \<open>An absent destination result is read as three empty lists, and the compilation
  is given three empty lists.\<close>

lemma absent_destination_empty_lists:
  "activities_list_of None = [] \<and> travel_options_of None = [] \<and> research_details_of None = []"
  by (simp add: activities_list_of_def travel_options_of_def research_details_of_def)

lemma compile_input_absent_destination:
  "map_of (compile_input ui fs hs None ns) ''activities_list_json'' = Some (PList [])
   \<and> map_of (compile_input ui fs hs None ns) ''travel_options_json'' = Some (PList [])
   \<and> map_of (compile_input ui fs hs None ns) ''research_details_json'' = Some (PList [])"
  by (simp add: compile_input_def absent_destination_empty_lists)


lemma final_validation_failed_fresh:
  assumes "map_of d ''notes_and_warnings'' = None"
  shows "final_validation_failed d e
         = Inr (AList.update ''disclaimer''
                  (PStr ''Partial itinerary generated due to final validation error.'')
                  (AList.update ''notes_and_warnings''
                     (PList [PStr (''Validation failed for final itinerary: '' @ exn_str e)]) d))"
  using assms by (simp add: final_validation_failed_def then_do_def Let_def)

lemma final_validation_failed_list:
  assumes "map_of d ''notes_and_warnings'' = Some (PList ws)"
  shows "final_validation_failed d e
         = Inr (AList.update ''disclaimer''
                  (PStr ''Partial itinerary generated due to final validation error.'')
                  (AList.update ''notes_and_warnings''
                     (PList (ws @ [PStr (''Validation failed for final itinerary: '' @ exn_str e)]))
                     d))"
  using assms by (simp add: final_validation_failed_def then_do_def Let_def)

lemma itinerary_final_validation_failure:
  assumes "itinerary_hotels str_of (augmentation_chain calls) state = Inr (hs, notes1)"
    and "flights_for_prompt_of str_of (state_flight_results state) notes1 = Inr (fs, ns)"
    and "num_days_int_of (user_info state) = Inr k"
    and "structured_itinerary_chain calls k
           (compile_input (user_info state) fs hs (destination_info_results state) ns)
         = Inr compiled"
    and "FinalFullTravelItinerary calls
           (AList.update ''user_request_summary'' (PDict (user_info state)) compiled)
         = Inl (ValidationError m errs)"
  shows "itinerary_agent_node str_of calls state
         = final_validation_failed
             (AList.update ''user_request_summary'' (PDict (user_info state)) compiled)
             (ValidationError m errs)"
  using assms by (simp add: itinerary_agent_node_def then_do_def Let_def)







text \<open>The conversion of the day count is outside both handlers, and its own handler
  catches \<open>ValueError\<close> only: on \<open>None\<close> it raises \<open>TypeError\<close>.\<close>

lemma num_days_None_raises:
  "map_of ui ''num_days'' = Some PNone \<Longrightarrow> \<exists>m. num_days_int_of ui = Inl (TypeError m)"
  by (simp add: num_days_int_of_def dict_get_or_def)

text \<open>
  Claim C8. The Itinerary Compiler stage is to return a document on every state. On
  the state whose \<open>user_info\<close> holds \<open>num_days\<close> with the value \<open>None\<close>, no hotels and no
  flights, the stage returns nothing: \<open>int(None)\<close> raises \<open>TypeError\<close>, which leaves the
  stage, whatever the three calls answer.
\<close>

theorem C8_itinerary_raises_TypeError:
  "itinerary_agent_node str_of calls (example_state user_info_num_days_None)
   = Inl (TypeError (''int() argument must be a string, a bytes-like object or a real number, not ''
                     @ quoted ''NoneType''))"
  by (simp add: itinerary_agent_node_def itinerary_hotels_def hotel_updated_of_def
        flights_for_prompt_of_def num_days_int_of_def example_state_def
        user_info_num_days_None_def state_hotel_results_def state_flight_results_def
        state_notes_def then_do_def dict_get_or_def Let_def)

section \<open>The theorems at concrete inputs\<close>

lemma hotel_search_example:
  "hotel_search example_hotel_search ''key'' ''Paris'' ''2025-06-02'' ''2025-06-07'' 2 None
   = Inr (hotels_response ''Paris''
            [example_simplified_hotel ''Hotel A'', example_simplified_hotel ''Hotel B''] None)"
  by code_simp

theorem C5_hotels_at_most_two_witness:
  "\<exists>hs. map_of (hotels_response ''Paris''
            [example_simplified_hotel ''Hotel A'', example_simplified_hotel ''Hotel B''] None)
            ''hotels'' = Some (PList hs) \<and> length hs \<le> 2"
  by (rule C5_hotels_at_most_two [OF hotel_search_example])

lemma fetch_flights_example:
  "fetch_flights example_str_of example_flight_search ''key'' ''DXB'' ''SYD''
     ''2025-06-02'' ''2025-06-07''
   = Inr (flights_response ''DXB'' ''SYD''
            [PDict [(''airline'', PStr ''Air''),
                    (''departure_time'', PStr ''2025-06-02 08:00''),
                    (''arrival_time'', PStr ''2025-06-02 12:00''),
                    (''departure_airport'', PStr ''DXB''),
                    (''arrival_airport'', PStr ''SIN''),
                    (''price'', PStr ''450'')],
             PDict [(''airline'', PStr ''Air''),
                    (''departure_time'', PStr ''2025-06-02 08:00''),
                    (''arrival_time'', PStr ''2025-06-02 12:00''),
                    (''departure_airport'', PStr ''SIN''),
                    (''arrival_airport'', PStr ''SYD''),
                    (''price'', PStr ''450'')]] None)"
  by code_simp

theorem C10_first_option_only_witness:
  "length (case map_of (flights_response ''DXB'' ''SYD''
            [PDict [(''airline'', PStr ''Air''),
                    (''departure_time'', PStr ''2025-06-02 08:00''),
                    (''arrival_time'', PStr ''2025-06-02 12:00''),
                    (''departure_airport'', PStr ''DXB''),
                    (''arrival_airport'', PStr ''SIN''),
                    (''price'', PStr ''450'')],
             PDict [(''airline'', PStr ''Air''),
                    (''departure_time'', PStr ''2025-06-02 08:00''),
                    (''arrival_time'', PStr ''2025-06-02 12:00''),
                    (''departure_airport'', PStr ''SIN''),
                    (''arrival_airport'', PStr ''SYD''),
                    (''price'', PStr ''450'')]] None) ''flights'' of Some (PList fl) \<Rightarrow> fl | _ \<Rightarrow> []) = 2
   \<and> py_get example_best0 ''price'' (PStr ''N/A'') = Inr (PInt 450)"
  using C10_first_option_only [of example_flight_search "''key''" "''DXB''" "''SYD''"
          "''2025-06-02''" "''2025-06-07''" "[(''best_flights'', PList (example_best0 # example_later))]"
          example_best0 example_later example_str_of, OF _ _ fetch_flights_example]
  by (simp add: example_flight_search_def dict_get_or_def flights_response_def example_best0_def)

theorem C3_flight_missing_fields_witness:
  "\<exists>msg. flight_agent_node example_str_of (\<lambda>a. Inr []) (example_state user_info_without_destination)
                  = \<lparr>fu_flight_results = [(''flights'', PList []), (''note'', PStr msg)],
                     fu_notes = state_notes (example_state user_info_without_destination) @ [PStr msg]\<rparr>
              \<and> (\<forall>f \<in> set flight_fields.
                    \<not> truthy (dict_get (user_info (example_state user_info_without_destination)) f)
                    \<longrightarrow> (\<exists>ps ss. msg = ps @ f @ ss))"
  by (rule C3_flight_missing_fields)
     (simp add: flight_fields_def example_state_def user_info_without_destination_def dict_get_def)

theorem C4_missing_adults_counterexample:
  "map_of user_info_without_adults ''no_of_adults'' = None
   \<and> hu_hotel_results (hotel_agent_node example_hotel_tool (example_state user_info_without_adults))
       = hotels_response ''Paris''
            [example_simplified_hotel ''Hotel A'', example_simplified_hotel ''Hotel B''] None
   \<and> hu_notes (hotel_agent_node example_hotel_tool (example_state user_info_without_adults)) = []"
  by code_simp

theorem C4_hotel_missing_fields_witness:
  "\<exists>msg. hotel_agent_node example_hotel_tool (example_state ((''no_of_adults'', PInt 0) # user_info_without_adults))
                  = \<lparr>hu_hotel_results = [(''hotels'', PList []), (''note'', PStr msg)],
                     hu_notes = state_notes (example_state ((''no_of_adults'', PInt 0) # user_info_without_adults)) @ [PStr msg]\<rparr>
              \<and> (\<forall>f \<in> set hotel_fields.
                    \<not> truthy (dict_get (user_info (example_state ((''no_of_adults'', PInt 0) # user_info_without_adults))) f)
                    \<longrightarrow> (\<exists>ps ss. msg = ps @ f @ ss))"
  by (rule C4_hotel_missing_fields)
     (simp add: example_state_def user_info_without_adults_def dict_get_or_def)

lemma hotel_updated_of_example:
  "hotel_updated_of example_str_of (state_hotel_results example_hotel_state)
     (state_notes example_hotel_state)
   = Inr ([example_hotel_record ''Hotel A'', example_hotel_record ''Hotel B''], [])"
  by code_simp

lemma itinerary_hotels_example:
  "itinerary_hotels example_str_of example_augmentation_chain example_hotel_state
   = Inr ([example_hotel_record ''Hotel A'',
           (example_hotel_record ''Hotel B'')
             \<lparr>address := ''1 Main Street, Paris'',
              description := ''A quiet hotel near the river.'',
              perks := ''Central and calm.''\<rparr>],
          [PStr ''Error during hotel augmentation for Hotel A: deadline exceeded''])"
  by code_simp

theorem C6_typed_hotels_amenities_witness:
  "hotel_updated_of example_str_of (state_hotel_results example_hotel_state)
     (state_notes example_hotel_state)
   = Inr ([example_hotel_record ''Hotel A'', example_hotel_record ''Hotel B''], [])
   \<and> itinerary_hotels example_str_of example_augmentation_chain example_hotel_state
   = Inr ([example_hotel_record ''Hotel A'',
           (example_hotel_record ''Hotel B'')
             \<lparr>address := ''1 Main Street, Paris'',
              description := ''A quiet hotel near the river.'',
              perks := ''Central and calm.''\<rparr>],
          [PStr ''Error during hotel augmentation for Hotel A: deadline exceeded''])
   \<and> length (amenities (example_hotel_record ''Hotel A'')) \<le> 5
   \<and> length (amenities (example_hotel_record ''Hotel B'')) \<le> 5
   \<and> length (amenities ((example_hotel_record ''Hotel B'')
             \<lparr>address := ''1 Main Street, Paris'',
              description := ''A quiet hotel near the river.'',
              perks := ''Central and calm.''\<rparr>)) \<le> 5"
  using C6_typed_hotels_amenities
          [of example_str_of example_hotel_state
              "[example_hotel_record ''Hotel A'', example_hotel_record ''Hotel B'']" "[]"
              example_augmentation_chain
              "[example_hotel_record ''Hotel A'',
                (example_hotel_record ''Hotel B'')
                  \<lparr>address := ''1 Main Street, Paris'',
                   description := ''A quiet hotel near the river.'',
                   perks := ''Central and calm.''\<rparr>]"
              "[PStr ''Error during hotel augmentation for Hotel A: deadline exceeded'']"]
        hotel_updated_of_example itinerary_hotels_example
  by simp

theorem C6_connector_amenities_counterexample:
  "hotel_search example_hotel_search ''key'' ''Paris'' ''2025-06-02'' ''2025-06-07'' 2 None
   = Inr (hotels_response ''Paris''
            [example_simplified_hotel ''Hotel A'', example_simplified_hotel ''Hotel B''] None)
   \<and> hu_hotel_results (hotel_agent_node example_hotel_tool
         (example_state ((''no_of_adults'', PInt 2) # user_info_without_adults)))
     = hotels_response ''Paris''
            [example_simplified_hotel ''Hotel A'', example_simplified_hotel ''Hotel B''] None
   \<and> py_get (example_simplified_hotel ''Hotel A'') ''amenities'' PNone
     = Inr (PList [PStr ''Wi-Fi'', PStr ''Pool'', PStr ''Spa'', PStr ''Bar'', PStr ''Gym'',
                   PStr ''Parking''])
   \<and> \<not> length [PStr ''Wi-Fi'', PStr ''Pool'', PStr ''Spa'', PStr ''Bar'', PStr ''Gym'',
                 PStr ''Parking''] \<le> 5"
  by code_simp

lemma example_augmentation_raises:
  "example_augmentation_chain
     (augmentation_input example_str_of (PStr ''Paris'') (example_hotel_record ''Hotel A''))
   = Inl (OtherException ''deadline exceeded'')"
  by code_simp

theorem C7_augmentation_keeps_hotels_witness:
  "example_augmentation_chain
     (augmentation_input example_str_of (PStr ''Paris'') (example_hotel_record ''Hotel A''))
   = Inl (OtherException ''deadline exceeded'')
   \<and> length (fst (augment_hotels example_str_of example_augmentation_chain (PStr ''Paris'')
                    [example_hotel_record ''Hotel A'', example_hotel_record ''Hotel B''] []))
     = 2
   \<and> fst (augment_hotels example_str_of example_augmentation_chain (PStr ''Paris'')
            [example_hotel_record ''Hotel A'', example_hotel_record ''Hotel B''] []) ! 0
     = example_hotel_record ''Hotel A''"
  using C7_augmentation_keeps_hotels
          [of example_str_of example_augmentation_chain "PStr ''Paris''"
              "[example_hotel_record ''Hotel A'', example_hotel_record ''Hotel B'']" "[]"]
        example_augmentation_raises
  by simp







end
